theory Spec2Isabelle
  imports Main "HOL-Library.Sublist"
begin

section \<open>Data model of the live-session service (main.go)\<close>

text \<open>
  Instants are Unix seconds. A Go \<open>time.Time\<close> field that was never assigned holds Go's
  zero instant (January 1 of year 1, UTC); a DATETIME column of the store may hold NULL,
  which is \<open>None\<close>.
\<close>

type_synonym time = int

definition zero_time :: time where
  "zero_time = - 62135596800"

text \<open>The struct \<open>Config\<close>, read once from config.json into the global \<open>config\<close>.\<close>

record Config =
  DBUser :: string
  DBPassword :: string
  DBHost :: string
  DBPort :: int
  DBName :: string
  LivegoURL :: string
  APIPort :: int

text \<open>The struct \<open>LiveSession\<close>; a nil \<open>PlayURLs\<close> map is the empty map.\<close>

record LiveSession =
  ID :: int
  CourseID :: int
  StreamKey :: string
  Status :: string
  StartTime :: time
  EndTime :: time
  CreatedAt :: time
  PlayURLs :: "string \<rightharpoonup> string"

text \<open>
  The struct \<open>Question\<close>. Its fields carry the prefix \<open>Question_\<close>, since \<open>ID\<close> and
  \<open>CourseID\<close> are fields of \<open>LiveSession\<close> already.
\<close>

record Question =
  Question_ID :: int
  Question_CourseID :: int
  Question_Type :: string
  Question_Content :: string
  Question_Options :: "string list"
  Question_Answer :: string

text \<open>
  What a handler writes with \<open>c.JSON(status, body)\<close>: the HTTP status code and the body,
  which is \<open>gin.H{"error": \<dots>}\<close>, \<open>gin.H{"message": \<dots>}\<close>, a session or a question.
  \<open>Panicked\<close> is a handler that panics before it writes a response.
\<close>

datatype body =
  Error string
  | Message string
  | SessionBody LiveSession
  | QuestionBody Question

datatype response = JSON nat body | Panicked

definition StatusOK :: nat where "StatusOK = 200"
definition StatusCreated :: nat where "StatusCreated = 201"
definition StatusBadRequest :: nat where "StatusBadRequest = 400"
definition StatusNotFound :: nat where "StatusNotFound = 404"
definition StatusInternalServerError :: nat where "StatusInternalServerError = 500"

lemmas http_status_defs =
  StatusOK_def StatusCreated_def StatusBadRequest_def StatusNotFound_def
  StatusInternalServerError_def

subsection \<open>The relational store\<close>

text \<open>
  A row of the table \<open>live_sessions\<close>, with the columns the statements of main.go name.
  The column \<open>id\<close> is called \<open>id_col\<close> here (\<open>id\<close> is the identity function of HOL).
\<close>

record session_row =
  id_col :: int
  course_id :: int
  stream_key :: string
  status :: string
  start_time :: "time option"
  end_time :: "time option"
  created_at :: time

text \<open>A row of the table \<open>questions\<close>; its columns carry the prefix \<open>q_\<close>.\<close>

record question_row =
  q_id :: int
  q_course_id :: int
  q_type :: string
  q_content :: string
  q_options :: string
  q_answer :: string

text \<open>
  The database behind the global handle \<open>db\<close>. The table declarations are not part of
  the repository, so what they fix is a parameter here: the INSERT of
  \<open>createLiveSession\<close> names neither \<open>start_time\<close> nor \<open>end_time\<close>, and a new row gets
  the column defaults \<open>start_time_default\<close> and \<open>end_time_default\<close> (NULL is \<open>None\<close>).
  Each table hands out identifiers from its own counter (\<open>LastInsertId\<close>).
\<close>

record db =
  live_sessions :: "session_row list"
  live_sessions_auto_increment :: int
  start_time_default :: "time option"
  end_time_default :: "time option"
  questions :: "question_row list"
  questions_auto_increment :: int

text \<open>
  \<open>UPDATE t SET \<dots> WHERE \<dots>\<close> as one atomic statement: every row that satisfies the
  condition is rewritten, and the result reports how many rows were (\<open>RowsAffected\<close>).
  Each UPDATE of main.go sets a status other than the one its condition asks for, so
  every row it selects is a row it changes.
\<close>

definition sql_update ::
  "('r \<Rightarrow> bool) \<Rightarrow> ('r \<Rightarrow> 'r) \<Rightarrow> 'r list \<Rightarrow> nat \<times> 'r list" where
  "sql_update cond set_cols rs =
     (length (filter cond rs), map (\<lambda>r. if cond r then set_cols r else r) rs)"

text \<open>\<open>DELETE FROM t WHERE \<dots>\<close>.\<close>

definition sql_delete :: "('r \<Rightarrow> bool) \<Rightarrow> 'r list \<Rightarrow> 'r list" where
  "sql_delete cond rs = filter (\<lambda>r. \<not> cond r) rs"

text \<open>\<open>QueryRow\<close>: the first row that satisfies the condition, \<open>sql.ErrNoRows\<close> is \<open>None\<close>.\<close>

definition sql_query_row :: "('r \<Rightarrow> bool) \<Rightarrow> 'r list \<Rightarrow> 'r option" where
  "sql_query_row cond rs = find cond rs"

subsection \<open>Playback endpoints\<close>

text \<open>\<open>getPlayURLs\<close>: three \<open>fmt.Sprintf\<close> calls over \<open>config.LivegoURL\<close> and the key.\<close>

definition getPlayURLs :: "Config \<Rightarrow> string \<Rightarrow> (string \<rightharpoonup> string)" where
  "getPlayURLs config streamKey =
     [''rtmp'' \<mapsto> ''rtmp://'' @ LivegoURL config @ ''/live/'' @ streamKey,
      ''flv'' \<mapsto> ''http://'' @ LivegoURL config @ '':7001/live/'' @ streamKey @ ''.flv'',
      ''hls'' \<mapsto> ''http://'' @ LivegoURL config @ '':7002/live/'' @ streamKey @ ''.m3u8'']"

subsection \<open>The environment of one request\<close>

text \<open>What \<open>http.Post\<close> returns: a transport error, or a response with its \<open>StatusCode\<close>
  and \<open>Status\<close> text.\<close>

datatype http_result = PostError string | Resp nat string

text \<open>
  Everything a handler reads from outside itself during one request: the clocks, the
  outcome of each store call that can fail, the external streaming backend, and the
  conversions \<open>Scan\<close> of the library \<open>database/sql\<close> applies to a column (that library is
  not part of the repository, so its conversions are parameters: \<open>None\<close> is a \<open>Scan\<close>
  that returns an error).
\<close>

record env =
  time_Now_Unix :: int
  time_Now_UnixNano :: "nat \<Rightarrow> int"
  time_Now :: time
  NOW :: time
  exec_err :: bool
  last_insert_id_err :: bool
  rows_affected_err :: bool
  rollback_err :: bool
  query_err :: bool
  http_Post :: "string \<Rightarrow> http_result"
  scan_datetime :: "time option \<Rightarrow> time option"
  scan_options :: "string \<Rightarrow> string list option"

subsection \<open>Stream keys\<close>

definition charset :: string where
  "charset = ''abcdefghijklmnopqrstuvwxyzABCDEFGHIJKLMNOPQRSTUVWXYZ0123456789''"

text \<open>Go's \<open>%\<close> on integers truncates towards zero: the result has the sign of the dividend.\<close>

definition go_rem :: "int \<Rightarrow> int \<Rightarrow> int" where
  "go_rem a b = sgn a * (\<bar>a\<bar> mod \<bar>b\<bar>)"

text \<open>Indexing the constant string: an index out of range panics (\<open>None\<close>).\<close>

definition charset_at :: "int \<Rightarrow> char option" where
  "charset_at j = (if 0 \<le> j \<and> j < int (length charset) then Some (charset ! nat j) else None)"

text \<open>
  \<open>generateRandomString\<close>: the loop \<open>for i := range result\<close> reads the clock once for
  each byte; \<open>UnixNano i\<close> is the reading taken for byte \<open>i\<close>.
\<close>

primrec generateRandomString_loop :: "(nat \<Rightarrow> int) \<Rightarrow> nat list \<Rightarrow> string option" where
  "generateRandomString_loop UnixNano [] = Some []"
| "generateRandomString_loop UnixNano (i # rest) =
     (case charset_at (go_rem (UnixNano i) (int (length charset))) of
        None \<Rightarrow> None
      | Some c \<Rightarrow> map_option ((#) c) (generateRandomString_loop UnixNano rest))"

definition generateRandomString :: "(nat \<Rightarrow> int) \<Rightarrow> nat \<Rightarrow> string option" where
  "generateRandomString UnixNano len = generateRandomString_loop UnixNano [0..<len]"

text \<open>The verb \<open>%d\<close> of \<open>fmt.Sprintf\<close> on an integer: its decimal digits, with a sign.\<close>

definition digit_char :: "nat \<Rightarrow> char" where
  "digit_char d = ''0123456789'' ! d"

fun decimal :: "nat \<Rightarrow> string" where
  "decimal n = (if n < 10 then [digit_char n] else decimal (n div 10) @ [digit_char (n mod 10)])"

declare decimal.simps [simp del]

definition fmt_d :: "int \<Rightarrow> string" where
  "fmt_d i = (if i < 0 then CHR ''-'' # decimal (nat (- i)) else decimal (nat i))"

definition generateStreamKey :: "env \<Rightarrow> string option" where
  "generateStreamKey e =
     map_option (\<lambda>r. ''live_'' @ fmt_d (time_Now_Unix e) @ ''_'' @ r)
       (generateRandomString (time_Now_UnixNano e) 10)"

subsection \<open>The external streaming backend\<close>

text \<open>\<open>createStreamInLivego\<close>: the returned error, \<open>None\<close> for \<open>nil\<close>.\<close>

definition createStreamInLivego :: "Config \<Rightarrow> env \<Rightarrow> string \<Rightarrow> string option" where
  "createStreamInLivego config e streamKey =
     (let url = LivegoURL config @ ''/api/stream/add?stream='' @ streamKey
      in case http_Post e url of
           PostError err \<Rightarrow> Some err
         | Resp code st \<Rightarrow>
             if code \<noteq> StatusOK then Some (''failed to create stream in Livego: '' @ st)
             else None)"

section \<open>The handlers of the live-session routes\<close>

text \<open>
  Each handler takes the environment of its request, its input and the database, and
  returns the response it writes and the database it leaves. A store call that returns
  an error leaves the database as it was. The path parameter \<open>id\<close> is the number the
  store compares with the column \<open>id\<close>. The outcome of \<open>ShouldBindJSON\<close> is the handler's
  input: \<open>Inl\<close> the binding error's text, \<open>Inr\<close> the bound value.
\<close>

text \<open>The INSERT of \<open>createLiveSession\<close>, with the identifier \<open>LastInsertId\<close> reports.\<close>

definition insert_live_session :: "int \<Rightarrow> string \<Rightarrow> time \<Rightarrow> db \<Rightarrow> int \<times> db" where
  "insert_live_session courseID streamKey now d =
     (let i = live_sessions_auto_increment d;
          r = \<lparr>id_col = i, course_id = courseID, stream_key = streamKey,
               status = ''pending'', start_time = start_time_default d,
               end_time = end_time_default d, created_at = now\<rparr>
      in (i, d\<lparr>live_sessions := live_sessions d @ [r],
               live_sessions_auto_increment := i + 1\<rparr>))"

definition createLiveSession ::
  "Config \<Rightarrow> env \<Rightarrow> string + int \<Rightarrow> db \<Rightarrow> response \<times> db" where
  "createLiveSession config e req d =
     (case req of
        Inl err \<Rightarrow> (JSON StatusBadRequest (Error err), d)
      | Inr courseID \<Rightarrow>
          (case generateStreamKey e of
             None \<Rightarrow> (Panicked, d)
           | Some streamKey \<Rightarrow>
               if exec_err e
               then (JSON StatusInternalServerError (Error ''Failed to create live session''), d)
               else
                 (case insert_live_session courseID streamKey (NOW e) d of
                    (i, d1) \<Rightarrow>
                      if last_insert_id_err e
                      then (JSON StatusInternalServerError (Error ''Failed to get session ID''), d1)
                      else
                        (case createStreamInLivego config e streamKey of
                           Some err \<Rightarrow>
                             (JSON StatusInternalServerError
                                (Error ''Failed to create stream in Livego''),
                              if rollback_err e then d1
                              else d1\<lparr>live_sessions :=
                                       sql_delete (\<lambda>r. id_col r = i) (live_sessions d1)\<rparr>)
                         | None \<Rightarrow>
                             (JSON StatusCreated
                                (SessionBody
                                   \<lparr>ID = i, CourseID = courseID, StreamKey = streamKey,
                                    Status = ''pending'', StartTime = zero_time,
                                    EndTime = zero_time, CreatedAt = time_Now e,
                                    PlayURLs = getPlayURLs config streamKey\<rparr>),
                              d1)))))"

text \<open>
  \<open>Scan\<close> in \<open>getLiveSession\<close>: the seven columns into the fields of the session; it
  fails when the conversion of a DATETIME column into a \<open>time.Time\<close> does.
\<close>

definition scan_session :: "env \<Rightarrow> session_row \<Rightarrow> LiveSession option" where
  "scan_session e r =
     (case scan_datetime e (start_time r) of
        None \<Rightarrow> None
      | Some st \<Rightarrow>
          (case scan_datetime e (end_time r) of
             None \<Rightarrow> None
           | Some et \<Rightarrow>
               Some \<lparr>ID = id_col r, CourseID = course_id r, StreamKey = stream_key r,
                     Status = status r, StartTime = st, EndTime = et,
                     CreatedAt = created_at r, PlayURLs = Map.empty\<rparr>))"

definition getLiveSession :: "Config \<Rightarrow> env \<Rightarrow> int \<Rightarrow> db \<Rightarrow> response \<times> db" where
  "getLiveSession config e i d =
     (if query_err e
      then (JSON StatusInternalServerError (Error ''Failed to get live session''), d)
      else
        (case sql_query_row (\<lambda>r. id_col r = i) (live_sessions d) of
           None \<Rightarrow> (JSON StatusNotFound (Error ''Live session not found''), d)
         | Some r \<Rightarrow>
             (case scan_session e r of
                None \<Rightarrow>
                  (JSON StatusInternalServerError (Error ''Failed to get live session''), d)
              | Some session \<Rightarrow>
                  (JSON StatusOK
                     (SessionBody
                        (if Status session = ''live''
                         then session\<lparr>PlayURLs := getPlayURLs config (StreamKey session)\<rparr>
                         else session)),
                   d))))"

definition startLiveSession :: "env \<Rightarrow> int \<Rightarrow> db \<Rightarrow> response \<times> db" where
  "startLiveSession e i d =
     (if exec_err e
      then (JSON StatusInternalServerError (Error ''Failed to start live session''), d)
      else
        (case sql_update (\<lambda>r. id_col r = i \<and> status r = ''pending'')
                (\<lambda>r. r\<lparr>status := ''live'', start_time := Some (NOW e)\<rparr>) (live_sessions d) of
           (rowsAffected, rows) \<Rightarrow>
             (if rows_affected_err e
              then JSON StatusInternalServerError (Error ''Failed to check rows affected'')
              else if rowsAffected = 0
              then JSON StatusBadRequest (Error ''Live session not found or already started'')
              else JSON StatusOK (Message ''Live session started successfully''),
              d\<lparr>live_sessions := rows\<rparr>)))"

definition endLiveSession :: "env \<Rightarrow> int \<Rightarrow> db \<Rightarrow> response \<times> db" where
  "endLiveSession e i d =
     (if exec_err e
      then (JSON StatusInternalServerError (Error ''Failed to end live session''), d)
      else
        (case sql_update (\<lambda>r. id_col r = i \<and> status r = ''live'')
                (\<lambda>r. r\<lparr>status := ''ended'', end_time := Some (NOW e)\<rparr>) (live_sessions d) of
           (rowsAffected, rows) \<Rightarrow>
             (if rows_affected_err e
              then JSON StatusInternalServerError (Error ''Failed to check rows affected'')
              else if rowsAffected = 0
              then JSON StatusBadRequest (Error ''Live session not found or already ended'')
              else JSON StatusOK (Message ''Live session ended successfully''),
              d\<lparr>live_sessions := rows\<rparr>)))"

subsection \<open>The status callback of the streaming backend\<close>

text \<open>
  \<open>strings.Split(s, "/")\<close>, for the one-character separator the handler uses: the pieces
  between the separators, one more than there are separators.
\<close>

fun strings_Split :: "string \<Rightarrow> char \<Rightarrow> string list" where
  "strings_Split [] sep = [[]]"
| "strings_Split (c # cs) sep =
     (if c = sep then [] # strings_Split cs sep
      else (case strings_Split cs sep of
              [] \<Rightarrow> [[c]]
            | p # ps \<Rightarrow> (c # p) # ps))"

text \<open>The anonymous struct the callback's body is bound to.\<close>

record callback =
  callback_StreamPath :: string
  callback_Status :: string

definition handleLiveStatusCallback :: "env \<Rightarrow> string + callback \<Rightarrow> db \<Rightarrow> response \<times> db" where
  "handleLiveStatusCallback e req d =
     (case req of
        Inl err \<Rightarrow> (JSON StatusBadRequest (Error err), d)
      | Inr cb \<Rightarrow>
          (let parts = strings_Split (callback_StreamPath cb) CHR ''/''
           in if length parts < 3
              then (JSON StatusBadRequest (Error ''Invalid stream path''), d)
              else
                (let streamKey = parts ! 2
                 in (JSON StatusOK (Message ''Callback received''),
                     if callback_Status cb = ''start''
                     then (if exec_err e then d
                           else d\<lparr>live_sessions :=
                                    snd (sql_update
                                           (\<lambda>r. stream_key r = streamKey \<and> status r = ''pending'')
                                           (\<lambda>r. r\<lparr>status := ''live'', start_time := Some (NOW e)\<rparr>)
                                           (live_sessions d))\<rparr>)
                     else if callback_Status cb = ''stop''
                     then (if exec_err e then d
                           else d\<lparr>live_sessions :=
                                    snd (sql_update
                                           (\<lambda>r. stream_key r = streamKey \<and> status r = ''live'')
                                           (\<lambda>r. r\<lparr>status := ''ended'', end_time := Some (NOW e)\<rparr>)
                                           (live_sessions d))\<rparr>)
                     else d))))"

section \<open>The handlers of the question routes\<close>

text \<open>\<open>strings.Join(elems, sep)\<close>.\<close>

fun strings_Join :: "string list \<Rightarrow> string \<Rightarrow> string" where
  "strings_Join [] sep = []"
| "strings_Join [x] sep = x"
| "strings_Join (x # y # ys) sep = x @ sep @ strings_Join (y # ys) sep"

definition createQuestion :: "env \<Rightarrow> string + Question \<Rightarrow> db \<Rightarrow> response \<times> db" where
  "createQuestion e req d =
     (case req of
        Inl err \<Rightarrow> (JSON StatusBadRequest (Error err), d)
      | Inr question \<Rightarrow>
          if exec_err e
          then (JSON StatusInternalServerError (Error ''Failed to create question''), d)
          else
            (let i = questions_auto_increment d;
                 r = \<lparr>q_id = i, q_course_id = Question_CourseID question,
                      q_type = Question_Type question, q_content = Question_Content question,
                      q_options = strings_Join (Question_Options question) '','',
                      q_answer = Question_Answer question\<rparr>;
                 d1 = d\<lparr>questions := questions d @ [r], questions_auto_increment := i + 1\<rparr>
             in if last_insert_id_err e
                then (JSON StatusInternalServerError (Error ''Failed to get question ID''), d1)
                else (JSON StatusCreated (QuestionBody (question\<lparr>Question_ID := i\<rparr>)), d1)))"

definition pushQuestion :: "env \<Rightarrow> int \<Rightarrow> int \<Rightarrow> db \<Rightarrow> response \<times> db" where
  "pushQuestion e courseID questionID d =
     (if query_err e
      then (JSON StatusInternalServerError (Error ''Failed to get question''), d)
      else
        (case sql_query_row (\<lambda>r. q_id r = questionID \<and> q_course_id r = courseID)
                (questions d) of
           None \<Rightarrow> (JSON StatusNotFound (Error ''Question not found''), d)
         | Some r \<Rightarrow>
             (case scan_options e (q_options r) of
                None \<Rightarrow> (JSON StatusInternalServerError (Error ''Failed to get question''), d)
              | Some opts \<Rightarrow>
                  (JSON StatusOK
                     (QuestionBody
                        \<lparr>Question_ID = q_id r, Question_CourseID = q_course_id r,
                         Question_Type = q_type r, Question_Content = q_content r,
                         Question_Options = opts, Question_Answer = q_answer r\<rparr>),
                   d))))"

section \<open>Sequences of requests\<close>

datatype request =
  Create "string + int"
  | Get int
  | Start int
  | End int
  | StatusCallback "string + callback"

fun handle :: "Config \<Rightarrow> env \<Rightarrow> request \<Rightarrow> db \<Rightarrow> response \<times> db" where
  "handle config e (Create req) d = createLiveSession config e req d"
| "handle config e (Get i) d = getLiveSession config e i d"
| "handle config e (Start i) d = startLiveSession e i d"
| "handle config e (End i) d = endLiveSession e i d"
| "handle config e (StatusCallback req) d = handleLiveStatusCallback e req d"

text \<open>The database after a sequence of requests, each with the environment it ran in.\<close>

fun run :: "Config \<Rightarrow> (env \<times> request) list \<Rightarrow> db \<Rightarrow> db" where
  "run config [] d = d"
| "run config ((e, q) # rest) d = run config rest (snd (handle config e q d))"

section \<open>Notions the properties are stated with\<close>

text \<open>
  The table hands out identifiers from its counter, so every stored identifier lies
  below it. The empty table has this property and every handler keeps it.
\<close>

definition wf_db :: "db \<Rightarrow> bool" where
  "wf_db d = list_all (\<lambda>r. id_col r < live_sessions_auto_increment d) (live_sessions d)"

text \<open>The same for the table of questions.\<close>

definition wf_questions :: "db \<Rightarrow> bool" where
  "wf_questions d = list_all (\<lambda>r. q_id r < questions_auto_increment d) (questions d)"

text \<open>The moves a status may make in one step: none, pending to live, live to ended.\<close>

definition lifecycle_step :: "string \<Rightarrow> string \<Rightarrow> bool" where
  "lifecycle_step a b \<longleftrightarrow>
     a = b \<or> (a = ''pending'' \<and> b = ''live'') \<or> (a = ''live'' \<and> b = ''ended'')"

definition session_step :: "session_row \<Rightarrow> session_row \<Rightarrow> bool" where
  "session_step r r' \<longleftrightarrow> id_col r' = id_col r \<and> lifecycle_step (status r) (status r')"

text \<open>
  What one statement of a handler does to a row at the store's instant \<open>now\<close>: nothing,
  the start transition, or the end transition.
\<close>

definition row_step :: "time \<Rightarrow> session_row \<Rightarrow> session_row \<Rightarrow> bool" where
  "row_step now r r' \<longleftrightarrow>
     r' = r \<or>
     (status r = ''pending'' \<and> r' = r\<lparr>status := ''live'', start_time := Some now\<rparr>) \<or>
     (status r = ''live'' \<and> r' = r\<lparr>status := ''ended'', end_time := Some now\<rparr>)"

text \<open>The columns no transition writes.\<close>

definition same_identity :: "session_row \<Rightarrow> session_row \<Rightarrow> bool" where
  "same_identity r r' \<longleftrightarrow>
     id_col r' = id_col r \<and> course_id r' = course_id r \<and> stream_key r' = stream_key r \<and>
     created_at r' = created_at r"

text \<open>
  What \<open>startLiveSession\<close> for the identifier \<open>i\<close> may do to a row: besides the columns
  no transition writes it keeps \<open>end_time\<close>, and \<open>status\<close> or \<open>start_time\<close> differ only
  when the row has the identifier and went from \<open>pending\<close> to \<open>live\<close>. Likewise for
  \<open>endLiveSession\<close>, and for the time stamps under any request.
\<close>

definition start_frame :: "int \<Rightarrow> session_row \<Rightarrow> session_row \<Rightarrow> bool" where
  "start_frame i r r' \<longleftrightarrow>
     same_identity r r' \<and> end_time r' = end_time r \<and>
     (start_time r' \<noteq> start_time r \<or> status r' \<noteq> status r \<longrightarrow>
        id_col r = i \<and> status r = ''pending'' \<and> status r' = ''live'')"

definition end_frame :: "int \<Rightarrow> session_row \<Rightarrow> session_row \<Rightarrow> bool" where
  "end_frame i r r' \<longleftrightarrow>
     same_identity r r' \<and> start_time r' = start_time r \<and>
     (end_time r' \<noteq> end_time r \<or> status r' \<noteq> status r \<longrightarrow>
        id_col r = i \<and> status r = ''live'' \<and> status r' = ''ended'')"

definition stamps_frame :: "session_row \<Rightarrow> session_row \<Rightarrow> bool" where
  "stamps_frame r r' \<longleftrightarrow>
     same_identity r r' \<and>
     (start_time r' \<noteq> start_time r \<longrightarrow> status r = ''pending'' \<and> status r' = ''live'') \<and>
     (end_time r' \<noteq> end_time r \<longrightarrow> status r = ''live'' \<and> status r' = ''ended'')"

text \<open>The bodies the start route and the callback route answer with.\<close>

definition started :: response where
  "started = JSON StatusOK (Message ''Live session started successfully'')"

definition not_started :: response where
  "not_started = JSON StatusBadRequest (Error ''Live session not found or already started'')"

definition ack :: response where
  "ack = JSON StatusOK (Message ''Callback received'')"

text \<open>
  Two requests in flight at once, each of which executes one statement on the store: the
  store executes the two statements one after the other, in one of the two orders. The
  list holds, for each order, the response to the first request, the response to the
  second request and the database left behind.
\<close>

definition serializations ::
  "(db \<Rightarrow> response \<times> db) \<Rightarrow> (db \<Rightarrow> response \<times> db) \<Rightarrow> db \<Rightarrow> ((response \<times> response) \<times> db) list" where
  "serializations h1 h2 d =
     [(case h1 d of (r1, d1) \<Rightarrow> (case h2 d1 of (r2, d2) \<Rightarrow> ((r1, r2), d2))),
      (case h2 d of (r2, d1) \<Rightarrow> (case h1 d1 of (r1, d2) \<Rightarrow> ((r1, r2), d2)))]"

section \<open>Example inputs\<close>

text \<open>
  A configuration whose backend address carries its scheme, as \<open>http.Post\<close> needs it,
  and a backend that answers 200 to a request with that scheme and fails every other.
\<close>

definition ex_config :: Config where
  "ex_config = \<lparr>DBUser = ''live'', DBPassword = ''secret'', DBHost = ''127.0.0.1'', DBPort = 3306,
     DBName = ''live'', LivegoURL = ''http://127.0.0.1:8090'', APIPort = 8080\<rparr>"

definition ex_http_Post :: "string \<Rightarrow> http_result" where
  "ex_http_Post url =
     (if take 7 url = ''http://'' then Resp 200 ''200 OK''
      else PostError ''unsupported protocol scheme'')"

text \<open>
  An environment in which every store call succeeds, with that backend and with the
  conversions of \<open>database/sql\<close> (a NULL column cannot be stored in a \<open>time.Time\<close>, and
  no column in a \<open>[]string\<close>), and a database with one live session.
\<close>

definition ex_env :: env where
  "ex_env = \<lparr>time_Now_Unix = 1700000000, time_Now_UnixNano = (\<lambda>i. 1700000000000000000),
     time_Now = 1700000000, NOW = 1700000000, exec_err = False, last_insert_id_err = False,
     rows_affected_err = False, rollback_err = False, query_err = False,
     http_Post = ex_http_Post, scan_datetime = (\<lambda>v. v),
     scan_options = (\<lambda>s. None)\<rparr>"

definition ex_row :: session_row where
  "ex_row = \<lparr>id_col = 1, course_id = 42, stream_key = ''live_1_k'', status = ''live'',
     start_time = Some 1600000000, end_time = Some 0, created_at = 1500000000\<rparr>"

definition ex_db :: db where
  "ex_db = \<lparr>live_sessions = [ex_row], live_sessions_auto_increment = 2,
     start_time_default = Some 0, end_time_default = Some 0,
     questions = [], questions_auto_increment = 1\<rparr>"

definition ex_session :: LiveSession where
  "ex_session = \<lparr>ID = 1, CourseID = 42, StreamKey = ''live_1_k'', Status = ''live'',
     StartTime = 1600000000, EndTime = 0, CreatedAt = 1500000000,
     PlayURLs = getPlayURLs ex_config ''live_1_k''\<rparr>"

text \<open>The session a Create returns in \<open>ex_env\<close> on \<open>ex_db\<close>, its row, and the database left.\<close>

definition ex_created :: LiveSession where
  "ex_created = \<lparr>ID = 2, CourseID = 42, StreamKey = ''live_1700000000_AAAAAAAAAA'',
     Status = ''pending'', StartTime = zero_time, EndTime = zero_time, CreatedAt = 1700000000,
     PlayURLs = getPlayURLs ex_config ''live_1700000000_AAAAAAAAAA''\<rparr>"

definition ex_pending_row :: session_row where
  "ex_pending_row = \<lparr>id_col = 2, course_id = 42, stream_key = ''live_1700000000_AAAAAAAAAA'',
     status = ''pending'', start_time = Some 0, end_time = Some 0, created_at = 1700000000\<rparr>"

definition ex_db2 :: db where
  "ex_db2 = ex_db\<lparr>live_sessions := [ex_row, ex_pending_row], live_sessions_auto_increment := 3\<rparr>"

text \<open>The second session once started, and once ended.\<close>

definition ex_live_row2 :: session_row where
  "ex_live_row2 = ex_pending_row\<lparr>status := ''live'', start_time := Some 1700000000\<rparr>"

definition ex_ended_row2 :: session_row where
  "ex_ended_row2 = ex_live_row2\<lparr>status := ''ended'', end_time := Some 1700000000\<rparr>"

definition ex_db3 :: db where
  "ex_db3 = ex_db2\<lparr>live_sessions := [ex_row, ex_live_row2]\<rparr>"

text \<open>
  A later request in the same second, whose clock readings are 31 microseconds later
  (500 times 62 nanoseconds), and the session its Create returns.
\<close>

definition ex_env_later :: env where
  "ex_env_later = ex_env\<lparr>time_Now_UnixNano := (\<lambda>i. 1700000000000031000)\<rparr>"

definition ex_created_later :: LiveSession where
  "ex_created_later = ex_created\<lparr>ID := 3, CourseID := 43\<rparr>"

text \<open>An environment in which the streaming backend refuses the stream.\<close>

definition ex_env_down :: env where
  "ex_env_down = ex_env\<lparr>http_Post := (\<lambda>url. Resp 503 ''503 Service Unavailable'')\<rparr>"

text \<open>A callback for a stream key no session has.\<close>

definition ex_callback :: callback where
  "ex_callback = \<lparr>callback_StreamPath = ''/live/unknown'', callback_Status = ''start''\<rparr>"

text \<open>
  A database whose time columns have no default, so that a new row holds NULL in both,
  before any request; and the same database after a Create and a Start of the session
  created: the session is live and its \<open>end_time\<close> is still NULL.
\<close>

definition ex_db_empty :: db where
  "ex_db_empty = \<lparr>live_sessions = [], live_sessions_auto_increment = 1,
     start_time_default = None, end_time_default = None,
     questions = [], questions_auto_increment = 1\<rparr>"

definition ex_null_row :: session_row where
  "ex_null_row = \<lparr>id_col = 1, course_id = 42, stream_key = ''live_1700000000_AAAAAAAAAA'',
     status = ''live'', start_time = Some 1700000000, end_time = None,
     created_at = 1700000000\<rparr>"

definition ex_db_null :: db where
  "ex_db_null = ex_db_empty\<lparr>live_sessions := [ex_null_row], live_sessions_auto_increment := 2\<rparr>"

text \<open>Two questions that differ in their options only.\<close>

definition ex_question_a :: Question where
  "ex_question_a = \<lparr>Question_ID = 0, Question_CourseID = 42, Question_Type = ''choice'',
     Question_Content = ''Which one?'', Question_Options = [''a,b''], Question_Answer = ''a''\<rparr>"

definition ex_question_b :: Question where
  "ex_question_b = \<lparr>Question_ID = 0, Question_CourseID = 42, Question_Type = ''choice'',
     Question_Content = ''Which one?'', Question_Options = [''a'', ''b''], Question_Answer = ''a''\<rparr>"

text \<open>An environment whose \<open>Scan\<close> would split the stored options at the commas.\<close>

definition ex_env_split :: env where
  "ex_env_split = ex_env\<lparr>scan_options := (\<lambda>s. Some (strings_Split s CHR '',''))\<rparr>"

section \<open>Evaluating the examples\<close>

lemma ex_key: "generateStreamKey ex_env = Some ''live_1700000000_AAAAAAAAAA''"
  by (simp add: ex_env_def generateStreamKey_def generateRandomString_def fmt_d_def
      decimal.simps digit_char_def upt_rec go_rem_def charset_at_def charset_def)

lemma ex_provision: "createStreamInLivego ex_config ex_env k = None"
  by (simp add: createStreamInLivego_def ex_env_def ex_config_def ex_http_Post_def StatusOK_def)

lemma ex_env_sel:
  "exec_err ex_env = False" "last_insert_id_err ex_env = False"
  "rows_affected_err ex_env = False" "rollback_err ex_env = False"
  "query_err ex_env = False" "NOW ex_env = 1700000000" "time_Now ex_env = 1700000000"
  "scan_datetime ex_env v = v" "scan_options ex_env x = None"
  by (simp_all add: ex_env_def)

lemma ex_create:
  "createLiveSession ex_config ex_env (Inr 42) ex_db =
     (JSON StatusCreated (SessionBody ex_created), ex_db2)"
  by (simp add: createLiveSession_def ex_key ex_provision insert_live_session_def
      ex_env_sel ex_db_def ex_db2_def ex_created_def ex_pending_row_def)

lemma ex_get:
  "getLiveSession ex_config ex_env 1 ex_db = (JSON StatusOK (SessionBody ex_session), ex_db)"
  by (simp add: getLiveSession_def sql_query_row_def scan_session_def ex_env_sel ex_db_def
      ex_row_def ex_session_def)

lemma ex_start2: "startLiveSession ex_env 2 ex_db2 = (started, ex_db3)"
  by (simp add: startLiveSession_def sql_update_def ex_env_sel ex_db2_def ex_db3_def ex_row_def
      ex_pending_row_def ex_live_row2_def started_def)

lemma ex_end2:
  "endLiveSession ex_env 2 ex_db3 =
     (JSON StatusOK (Message ''Live session ended successfully''),
      ex_db3\<lparr>live_sessions := [ex_row, ex_ended_row2]\<rparr>)"
  by (simp add: endLiveSession_def sql_update_def ex_env_sel ex_db3_def ex_db2_def ex_row_def
      ex_pending_row_def ex_live_row2_def ex_ended_row2_def)

lemma ex_run:
  "run ex_config [(ex_env, Create (Inr 42)), (ex_env, Start 2)] ex_db = ex_db3"
  by (simp add: ex_create ex_start2)

lemma ex_wf: "wf_db ex_db" "wf_db ex_db2" "wf_db ex_db3"
  by (simp_all add: wf_db_def ex_db_def ex_db2_def ex_db3_def ex_row_def ex_pending_row_def
      ex_live_row2_def)

lemma ex_pending2: "\<exists>r \<in> set (live_sessions ex_db2). id_col r = 2 \<and> status r = ''pending''"
  by (simp add: ex_db2_def ex_pending_row_def)

lemma ex_key_down: "generateStreamKey ex_env_down = Some ''live_1700000000_AAAAAAAAAA''"
  using ex_key by (simp add: generateStreamKey_def ex_env_down_def)

lemma ex_provision_down:
  "createStreamInLivego ex_config ex_env_down k =
     Some ''failed to create stream in Livego: 503 Service Unavailable''"
  by (simp add: createStreamInLivego_def ex_env_down_def StatusOK_def)

lemma ex_env_down_sel:
  "exec_err ex_env_down = False" "last_insert_id_err ex_env_down = False"
  "rollback_err ex_env_down = False"
  by (simp_all add: ex_env_down_def ex_env_def)

lemma ex_run_null:
  "run ex_config [(ex_env, Create (Inr 42)), (ex_env, Start 1)] ex_db_empty = ex_db_null"
  by (simp add: createLiveSession_def ex_key ex_provision insert_live_session_def
      startLiveSession_def sql_update_def ex_env_sel ex_db_empty_def ex_db_null_def
      ex_null_row_def)

lemma ex_get_null:
  "getLiveSession ex_config ex_env 1 ex_db_null =
     (JSON StatusInternalServerError (Error ''Failed to get live session''), ex_db_null)"
  by (simp add: getLiveSession_def sql_query_row_def scan_session_def ex_env_sel
      ex_db_null_def ex_db_empty_def ex_null_row_def)

lemma ex_key_later: "generateStreamKey ex_env_later = Some ''live_1700000000_AAAAAAAAAA''"
  by (simp add: ex_env_later_def ex_env_def generateStreamKey_def generateRandomString_def fmt_d_def
      decimal.simps digit_char_def upt_rec go_rem_def charset_at_def charset_def)

lemma ex_provision_later: "createStreamInLivego ex_config ex_env_later k = None"
  by (simp add: createStreamInLivego_def ex_env_later_def ex_env_def ex_config_def
      ex_http_Post_def StatusOK_def)

lemma ex_env_later_sel:
  "exec_err ex_env_later = False" "last_insert_id_err ex_env_later = False"
  "NOW ex_env_later = 1700000000" "time_Now ex_env_later = 1700000000"
  by (simp_all add: ex_env_later_def ex_env_def)

section \<open>Statements on the store\<close>

lemma sql_update_count:
  "fst (sql_update cond f rs) = 0 \<longleftrightarrow> \<not> (\<exists>r \<in> set rs. cond r)"
  by (auto simp: sql_update_def filter_empty_conv)

lemma sql_update_rows: "snd (sql_update cond f rs) = map (\<lambda>r. if cond r then f r else r) rs"
  by (simp add: sql_update_def)

lemma sql_update_no_match:
  "\<not> (\<exists>r \<in> set rs. cond r) \<Longrightarrow> snd (sql_update cond f rs) = rs"
  by (simp add: sql_update_def map_idI)

lemma sql_update_rel:
  assumes "\<And>r. r \<in> set rs \<Longrightarrow> cond r \<Longrightarrow> R r (f r)" and "\<And>r. R r r"
  shows "list_all2 R rs (snd (sql_update cond f rs))"
  using assms by (induction rs) (auto simp: sql_update_def)

lemma sql_update_exhausts:
  assumes "\<And>r. cond r \<Longrightarrow> \<not> cond (f r)"
  shows "\<not> (\<exists>r \<in> set (snd (sql_update cond f rs)). cond r)"
proof
  assume "\<exists>r \<in> set (snd (sql_update cond f rs)). cond r"
  then obtain r where "r \<in> set (map (\<lambda>r. if cond r then f r else r) rs)" and r: "cond r"
    unfolding sql_update_rows by blast
  then obtain r0 where "r = (if cond r0 then f r0 else r0)"
    by (auto simp only: set_map image_iff)
  with r have r0: "cond (if cond r0 then f r0 else r0)"
    by (simp only:)
  show False
  proof (cases "cond r0")
    case True
    with r0 assms [of r0] show False by simp
  next
    case False
    with r0 show False by simp
  qed
qed

lemma sql_delete_fresh:
  assumes "\<forall>r \<in> set rs. id_col r < i" and "id_col new = i"
  shows "sql_delete (\<lambda>r. id_col r = i) (rs @ [new]) = rs"
proof -
  have "filter (\<lambda>r. id_col r \<noteq> i) rs = rs"
    using assms(1) by (auto simp: filter_id_conv)
  with assms(2) show ?thesis by (simp add: sql_delete_def)
qed

section \<open>What each handler leaves in the database\<close>

lemma startLiveSession_db:
  "snd (startLiveSession e i d) =
     (if exec_err e then d
      else d\<lparr>live_sessions :=
               snd (sql_update (\<lambda>r. id_col r = i \<and> status r = ''pending'')
                      (\<lambda>r. r\<lparr>status := ''live'', start_time := Some (NOW e)\<rparr>) (live_sessions d))\<rparr>)"
  by (simp add: startLiveSession_def split: prod.splits)

lemma endLiveSession_db:
  "snd (endLiveSession e i d) =
     (if exec_err e then d
      else d\<lparr>live_sessions :=
               snd (sql_update (\<lambda>r. id_col r = i \<and> status r = ''live'')
                      (\<lambda>r. r\<lparr>status := ''ended'', end_time := Some (NOW e)\<rparr>) (live_sessions d))\<rparr>)"
  by (simp add: endLiveSession_def split: prod.splits)

lemma getLiveSession_db: "snd (getLiveSession config e i d) = d"
  by (simp add: getLiveSession_def split: option.splits)

lemma callback_db:
  "snd (handleLiveStatusCallback e req d) = d \<or>
   (\<exists>k. snd (handleLiveStatusCallback e req d) =
      d\<lparr>live_sessions :=
          snd (sql_update (\<lambda>r. stream_key r = k \<and> status r = ''pending'')
                 (\<lambda>r. r\<lparr>status := ''live'', start_time := Some (NOW e)\<rparr>) (live_sessions d))\<rparr>) \<or>
   (\<exists>k. snd (handleLiveStatusCallback e req d) =
      d\<lparr>live_sessions :=
          snd (sql_update (\<lambda>r. stream_key r = k \<and> status r = ''live'')
                 (\<lambda>r. r\<lparr>status := ''ended'', end_time := Some (NOW e)\<rparr>) (live_sessions d))\<rparr>)"
  by (auto simp: handleLiveStatusCallback_def Let_def split: sum.splits)

lemma createLiveSession_db:
  assumes "wf_db d"
  shows "snd (createLiveSession config e req d) = d \<or>
     snd (createLiveSession config e req d) =
       d\<lparr>live_sessions_auto_increment := live_sessions_auto_increment d + 1\<rparr> \<or>
     (\<exists>c k t. snd (createLiveSession config e req d) =
        d\<lparr>live_sessions := live_sessions d @
              [\<lparr>id_col = live_sessions_auto_increment d, course_id = c, stream_key = k,
                status = ''pending'', start_time = start_time_default d,
                end_time = end_time_default d, created_at = t\<rparr>],
          live_sessions_auto_increment := live_sessions_auto_increment d + 1\<rparr>)"
proof -
  have "\<forall>r \<in> set (live_sessions d). id_col r < live_sessions_auto_increment d"
    using assms by (simp add: wf_db_def list_all_iff)
  then have del: "\<And>new. id_col new = live_sessions_auto_increment d \<Longrightarrow>
      sql_delete (\<lambda>r. id_col r = live_sessions_auto_increment d) (live_sessions d @ [new]) =
        live_sessions d"
    by (rule sql_delete_fresh)
  show ?thesis
    by (auto simp: createLiveSession_def insert_live_session_def Let_def del
        split: sum.splits option.splits)
qed

lemma createQuestion_db:
  "snd (createQuestion e (Inr q) d) =
     (if exec_err e then d
      else d\<lparr>questions := questions d @
               [\<lparr>q_id = questions_auto_increment d, q_course_id = Question_CourseID q,
                 q_type = Question_Type q, q_content = Question_Content q,
                 q_options = strings_Join (Question_Options q) '','',
                 q_answer = Question_Answer q\<rparr>],
             questions_auto_increment := questions_auto_increment d + 1\<rparr>)"
  by (simp add: createQuestion_def Let_def)

subsection \<open>Every handler moves each row by at most one transition\<close>

lemma row_step_refl: "list_all2 (row_step now) rs rs"
  by (simp add: list_all2_same row_step_def)

lemma start_rel:
  "list_all2 (row_step now) rs
     (snd (sql_update (\<lambda>r. c r \<and> status r = ''pending'')
        (\<lambda>r. r\<lparr>status := ''live'', start_time := Some now\<rparr>) rs))"
  by (rule sql_update_rel) (simp_all add: row_step_def)

lemma end_rel:
  "list_all2 (row_step now) rs
     (snd (sql_update (\<lambda>r. c r \<and> status r = ''live'')
        (\<lambda>r. r\<lparr>status := ''ended'', end_time := Some now\<rparr>) rs))"
  by (rule sql_update_rel) (simp_all add: row_step_def)

lemma row_step_session_step: "row_step now r r' \<Longrightarrow> session_step r r'"
  by (auto simp: row_step_def session_step_def lifecycle_step_def)

lemma handle_rows:
  assumes "wf_db d"
  shows "\<exists>rs new. live_sessions (snd (handle config e q d)) = rs @ new \<and>
           list_all2 (row_step (NOW e)) (live_sessions d) rs \<and>
           (\<forall>r \<in> set new. status r = ''pending'')"
proof (cases q)
  case (Create req)
  from createLiveSession_db [OF assms, of config e req]
  consider "live_sessions (snd (createLiveSession config e req d)) = live_sessions d @ []"
    | r where "live_sessions (snd (createLiveSession config e req d)) = live_sessions d @ [r]"
        and "status r = ''pending''"
    by (elim disjE exE) simp_all
  then show ?thesis
  proof cases
    case 1
    with Create show ?thesis
      using row_step_refl [of "NOW e"] by (intro exI [of _ "live_sessions d"] exI [of _ "[]"]) simp
  next
    case 2
    with Create show ?thesis
      using row_step_refl [of "NOW e"] by (intro exI [of _ "live_sessions d"] exI [of _ "[r]"]) simp
  qed
next
  case (Get i)
  then show ?thesis
    using row_step_refl [of "NOW e"]
    by (intro exI [of _ "live_sessions d"] exI [of _ "[]"]) (simp add: getLiveSession_db)
next
  case (Start i)
  then show ?thesis
    using row_step_refl [of "NOW e"] start_rel [of "NOW e" "live_sessions d" "\<lambda>r. id_col r = i"]
    by (intro exI [of _ "live_sessions (snd (startLiveSession e i d))"] exI [of _ "[]"])
       (simp add: startLiveSession_db)
next
  case (End i)
  then show ?thesis
    using row_step_refl [of "NOW e"] end_rel [of "NOW e" "live_sessions d" "\<lambda>r. id_col r = i"]
    by (intro exI [of _ "live_sessions (snd (endLiveSession e i d))"] exI [of _ "[]"])
       (simp add: endLiveSession_db)
next
  case (StatusCallback req)
  have "list_all2 (row_step (NOW e)) (live_sessions d)
          (live_sessions (snd (handleLiveStatusCallback e req d)))"
    using callback_db [of e req d] row_step_refl [of "NOW e"] start_rel [of "NOW e"]
      end_rel [of "NOW e"]
    by (elim disjE exE) simp_all
  with StatusCallback show ?thesis
    by (intro exI [of _ "live_sessions (snd (handleLiveStatusCallback e req d))"] exI [of _ "[]"])
       simp
qed

subsection \<open>Identifiers stay below the counter\<close>

lemma wf_db_ids:
  "wf_db d \<longleftrightarrow> list_all (\<lambda>i. i < live_sessions_auto_increment d) (map id_col (live_sessions d))"
  by (simp add: wf_db_def list_all_iff)

lemma wf_db_same_ids:
  assumes "wf_db d"
    and "map id_col (live_sessions d') = map id_col (live_sessions d)"
    and "live_sessions_auto_increment d' = live_sessions_auto_increment d"
  shows "wf_db d'"
  using assms by (simp only: wf_db_ids)

lemma update_ids:
  "map id_col (snd (sql_update c (\<lambda>r. r\<lparr>status := s, start_time := t\<rparr>) rs)) = map id_col rs"
  "map id_col (snd (sql_update c (\<lambda>r. r\<lparr>status := s, end_time := t\<rparr>) rs)) = map id_col rs"
  by (simp_all add: sql_update_def)

lemma handle_wf:
  assumes "wf_db d"
  shows "wf_db (snd (handle config e q d))"
proof (cases q)
  case (Create req)
  with createLiveSession_db [OF assms, of config e req] assms show ?thesis
    by (elim disjE exE) (auto simp: wf_db_def list_all_iff)
next
  case (Get i)
  with assms show ?thesis by (simp add: getLiveSession_db)
next
  case (Start i)
  have "wf_db (snd (startLiveSession e i d))"
    by (rule wf_db_same_ids [OF assms]) (simp_all add: startLiveSession_db update_ids)
  with Start show ?thesis by simp
next
  case (End i)
  have "wf_db (snd (endLiveSession e i d))"
    by (rule wf_db_same_ids [OF assms]) (simp_all add: endLiveSession_db update_ids)
  with End show ?thesis by simp
next
  case (StatusCallback req)
  have "wf_db (snd (handleLiveStatusCallback e req d))"
    using callback_db [of e req d]
    by (intro wf_db_same_ids [OF assms]; elim disjE exE) (simp_all add: update_ids)
  with StatusCallback show ?thesis by simp
qed

lemma run_wf: "wf_db d \<Longrightarrow> wf_db (run config reqs d)"
  by (induction config reqs d rule: run.induct) (simp_all add: handle_wf)

section \<open>Playback endpoints\<close>

lemma getPlayURLs_dom: "dom (getPlayURLs config k) = {''rtmp'', ''hls'', ''flv''}"
  by (auto simp: getPlayURLs_def)

lemma getPlayURLs_nonempty: "getPlayURLs config k \<noteq> Map.empty"
proof
  assume "getPlayURLs config k = Map.empty"
  then have "dom (getPlayURLs config k) = {}" by simp
  then show False by (simp add: getPlayURLs_dom)
qed

text \<open>
  Claim C8. The playback endpoints are a function of the stream key and of the backend
  address \<open>LivegoURL\<close> of the configuration alone: two configurations with the same
  address give the same map for the same key. The map has exactly the entries \<open>rtmp\<close>,
  \<open>hls\<close> and \<open>flv\<close>, and each is a nonempty string that contains the stream key.
\<close>

theorem getPlayURLs_pure:
  "LivegoURL config' = LivegoURL config \<Longrightarrow>
     getPlayURLs config' streamKey = getPlayURLs config streamKey \<and>
     dom (getPlayURLs config streamKey) = {''rtmp'', ''hls'', ''flv''} \<and>
     (\<forall>n \<in> {''rtmp'', ''hls'', ''flv''}.
        \<exists>u. getPlayURLs config streamKey n = Some u \<and> u \<noteq> [] \<and> sublist streamKey u)"
proof (intro conjI ballI)
  assume "LivegoURL config' = LivegoURL config"
  then show "getPlayURLs config' streamKey = getPlayURLs config streamKey"
    by (simp add: getPlayURLs_def)
next
  show "dom (getPlayURLs config streamKey) = {''rtmp'', ''hls'', ''flv''}"
    by (rule getPlayURLs_dom)
next
  fix n :: string
  assume n: "n \<in> {''rtmp'', ''hls'', ''flv''}"
  have 1: "sublist streamKey (''rtmp://'' @ LivegoURL config @ ''/live/'' @ streamKey)"
    by (metis append.assoc sublist_appendI append_Nil2)
  have 2: "sublist streamKey (''http://'' @ LivegoURL config @ '':7001/live/'' @ streamKey @ ''.flv'')"
    by (metis append.assoc sublist_appendI)
  have 3: "sublist streamKey (''http://'' @ LivegoURL config @ '':7002/live/'' @ streamKey @ ''.m3u8'')"
    by (metis append.assoc sublist_appendI)
  from n 1 2 3 show "\<exists>u. getPlayURLs config streamKey n = Some u \<and> u \<noteq> [] \<and> sublist streamKey u"
    by (auto simp: getPlayURLs_def)
qed

theorem getPlayURLs_pure_witness:
  "LivegoURL (ex_config\<lparr>APIPort := 9090\<rparr>) = LivegoURL ex_config \<and>
   getPlayURLs (ex_config\<lparr>APIPort := 9090\<rparr>) ''live_1_k'' = getPlayURLs ex_config ''live_1_k'' \<and>
   getPlayURLs ex_config ''live_1_k'' ''hls'' = Some ''http://http://127.0.0.1:8090:7002/live/live_1_k.m3u8''"
  using getPlayURLs_pure [of "ex_config\<lparr>APIPort := 9090\<rparr>" ex_config "''live_1_k''"]
  by (simp add: getPlayURLs_def ex_config_def)

section \<open>Playback endpoints in the responses\<close>

lemma getLiveSession_session:
  assumes "getLiveSession config e i d = (JSON c (SessionBody s), d')"
  shows "PlayURLs s = (if Status s = ''live'' then getPlayURLs config (StreamKey s) else Map.empty)"
  using assms
  by (auto simp: getLiveSession_def scan_session_def split: if_splits option.splits)

lemma getLiveSession_found:
  assumes "\<not> query_err e"
    and "sql_query_row (\<lambda>r. id_col r = i) (live_sessions d) = Some r"
    and "scan_session e r = Some s0"
  shows "getLiveSession config e i d =
     (JSON StatusOK
        (SessionBody
           (s0\<lparr>PlayURLs := if status r = ''live'' then getPlayURLs config (stream_key r)
                             else Map.empty\<rparr>)), d)"
proof -
  from assms(3) have "Status s0 = status r" "StreamKey s0 = stream_key r" "PlayURLs s0 = Map.empty"
    by (auto simp: scan_session_def split: option.splits)
  with assms show ?thesis
    by (simp add: getLiveSession_def)
qed

lemma createLiveSession_session:
  assumes "createLiveSession config e req d = (JSON c (SessionBody s), d')"
  shows "Status s = ''pending'' \<and> PlayURLs s = getPlayURLs config (StreamKey s)"
  using assms
  by (auto simp: createLiveSession_def split: sum.splits if_splits option.splits prod.splits)

lemma createLiveSession_created:
  assumes "generateStreamKey e = Some k" and "\<not> exec_err e" and "\<not> last_insert_id_err e"
    and "createStreamInLivego config e k = None"
  shows "fst (createLiveSession config e (Inr courseID) d) =
     JSON StatusCreated
       (SessionBody
          \<lparr>ID = live_sessions_auto_increment d, CourseID = courseID, StreamKey = k,
           Status = ''pending'', StartTime = zero_time, EndTime = zero_time,
           CreatedAt = time_Now e, PlayURLs = getPlayURLs config k\<rparr>)"
  using assms by (simp add: createLiveSession_def insert_live_session_def Let_def)

text \<open>
  Claim C1, as the code has it. A session that \<open>getLiveSession\<close> returns carries playback
  endpoints if and only if its status is \<open>live\<close>, and then they are \<open>getPlayURLs\<close> of its
  stream key; when the query finds a row and \<open>Scan\<close> reads it, the session is returned,
  with the endpoints for a live row and without them for any other. A session that
  \<open>createLiveSession\<close> returns has status \<open>pending\<close> and carries the three computed
  endpoints all the same, its map is not empty; and when the key is generated, the store
  executes the INSERT and the backend accepts the stream, \<open>createLiveSession\<close> does
  return that session, with status 201.
\<close>

theorem playback_endpoints_of_responses:
  "(getLiveSession config e i d = (JSON c (SessionBody s), d') \<longrightarrow>
      (PlayURLs s \<noteq> Map.empty \<longleftrightarrow> Status s = ''live'') \<and>
      (Status s = ''live'' \<longrightarrow> PlayURLs s = getPlayURLs config (StreamKey s))) \<and>
   (\<not> query_err e \<and> sql_query_row (\<lambda>r. id_col r = i) (live_sessions d) = Some r \<and>
    scan_session e r = Some s0 \<longrightarrow>
      getLiveSession config e i d =
        (JSON StatusOK
           (SessionBody
              (s0\<lparr>PlayURLs := if status r = ''live'' then getPlayURLs config (stream_key r)
                                else Map.empty\<rparr>)), d)) \<and>
   (createLiveSession config e' req d = (JSON c' (SessionBody s'), d'') \<longrightarrow>
      Status s' = ''pending'' \<and> PlayURLs s' = getPlayURLs config (StreamKey s') \<and>
      PlayURLs s' \<noteq> Map.empty) \<and>
   (generateStreamKey e' = Some k \<and> \<not> exec_err e' \<and> \<not> last_insert_id_err e' \<and>
    createStreamInLivego config e' k = None \<longrightarrow>
      fst (createLiveSession config e' (Inr courseID) d) =
        JSON StatusCreated
          (SessionBody
             \<lparr>ID = live_sessions_auto_increment d, CourseID = courseID, StreamKey = k,
              Status = ''pending'', StartTime = zero_time, EndTime = zero_time,
              CreatedAt = time_Now e', PlayURLs = getPlayURLs config k\<rparr>))"
  using getLiveSession_session [of config e i d c s d']
    getLiveSession_found [of e i d r s0 config]
    createLiveSession_session [of config e' req d c' s' d'']
    createLiveSession_created [of e' k config courseID d]
  by (simp add: getPlayURLs_nonempty)

theorem playback_endpoints_of_responses_witness:
  "getLiveSession ex_config ex_env 1 ex_db = (JSON StatusOK (SessionBody ex_session), ex_db) \<and>
   Status ex_session = ''live'' \<and>
   PlayURLs ex_session = getPlayURLs ex_config (StreamKey ex_session) \<and>
   PlayURLs ex_session \<noteq> Map.empty \<and>
   \<not> query_err ex_env \<and>
   sql_query_row (\<lambda>r. id_col r = 1) (live_sessions ex_db) = Some ex_row \<and>
   scan_session ex_env ex_row = Some (ex_session\<lparr>PlayURLs := Map.empty\<rparr>) \<and>
   createLiveSession ex_config ex_env (Inr 42) ex_db =
     (JSON StatusCreated (SessionBody ex_created), ex_db2) \<and>
   Status ex_created = ''pending'' \<and>
   PlayURLs ex_created = getPlayURLs ex_config (StreamKey ex_created) \<and>
   PlayURLs ex_created \<noteq> Map.empty \<and>
   generateStreamKey ex_env = Some ''live_1700000000_AAAAAAAAAA'' \<and>
   \<not> exec_err ex_env \<and> \<not> last_insert_id_err ex_env \<and>
   createStreamInLivego ex_config ex_env ''live_1700000000_AAAAAAAAAA'' = None \<and>
   fst (createLiveSession ex_config ex_env (Inr 43) ex_db) =
     JSON StatusCreated
       (SessionBody
          \<lparr>ID = live_sessions_auto_increment ex_db, CourseID = 43,
           StreamKey = ''live_1700000000_AAAAAAAAAA'', Status = ''pending'',
           StartTime = zero_time, EndTime = zero_time, CreatedAt = time_Now ex_env,
           PlayURLs = getPlayURLs ex_config ''live_1700000000_AAAAAAAAAA''\<rparr>)"
proof -
  have g: "getLiveSession ex_config ex_env 1 ex_db = (JSON StatusOK (SessionBody ex_session), ex_db)"
    by (rule ex_get)
  have q: "\<not> query_err ex_env" "\<not> exec_err ex_env" "\<not> last_insert_id_err ex_env"
    by (simp_all add: ex_env_sel)
  have f: "sql_query_row (\<lambda>r. id_col r = 1) (live_sessions ex_db) = Some ex_row"
    by (simp add: sql_query_row_def ex_db_def ex_row_def)
  have sc: "scan_session ex_env ex_row = Some (ex_session\<lparr>PlayURLs := Map.empty\<rparr>)"
    by (simp add: scan_session_def ex_env_sel ex_row_def ex_session_def)
  have cr: "createLiveSession ex_config ex_env (Inr 42) ex_db =
      (JSON StatusCreated (SessionBody ex_created), ex_db2)"
    by (rule ex_create)
  have st: "Status ex_session = ''live''"
    by (simp add: ex_session_def)
  have pr: "createStreamInLivego ex_config ex_env ''live_1700000000_AAAAAAAAAA'' = None"
    by (rule ex_provision)
  from playback_endpoints_of_responses [of ex_config ex_env 1 ex_db StatusOK ex_session ex_db
      ex_row "ex_session\<lparr>PlayURLs := Map.empty\<rparr>" ex_env "Inr 42" StatusCreated ex_created ex_db2
      "''live_1700000000_AAAAAAAAAA''" 43]
    g q f sc cr st ex_key pr
  show ?thesis by blast
qed

text \<open>
  Claim C1 as stated fails in two places. The response of a successful Create has
  status \<open>pending\<close>, and its playback endpoints are not empty. And where the time
  columns have no default, a Create followed by a Start leaves a live session whose
  \<open>end_time\<close> is NULL; \<open>Scan\<close> of \<open>database/sql\<close> cannot store NULL in a \<open>time.Time\<close>, so
  Get of this live session answers 500 and returns no session, hence no playback
  endpoints.
\<close>

theorem create_response_has_endpoints:
  "fst (createLiveSession ex_config ex_env (Inr 42) ex_db) =
     JSON StatusCreated (SessionBody ex_created) \<and>
   Status ex_created = ''pending'' \<and>
   PlayURLs ex_created \<noteq> Map.empty \<and>
   PlayURLs ex_created ''rtmp'' =
     Some ''rtmp://http://127.0.0.1:8090/live/live_1700000000_AAAAAAAAAA'' \<and>
   run ex_config [(ex_env, Create (Inr 42)), (ex_env, Start 1)] ex_db_empty = ex_db_null \<and>
   live_sessions ex_db_null = [ex_null_row] \<and>
   id_col ex_null_row = 1 \<and> status ex_null_row = ''live'' \<and> end_time ex_null_row = None \<and>
   getLiveSession ex_config ex_env 1 ex_db_null =
     (JSON StatusInternalServerError (Error ''Failed to get live session''), ex_db_null)"
proof -
  have a: "fst (createLiveSession ex_config ex_env (Inr 42) ex_db) =
      JSON StatusCreated (SessionBody ex_created)"
    by (simp add: ex_create)
  have b: "Status ex_created = ''pending''" "PlayURLs ex_created \<noteq> Map.empty"
    "PlayURLs ex_created ''rtmp'' =
       Some ''rtmp://http://127.0.0.1:8090/live/live_1700000000_AAAAAAAAAA''"
    by (simp_all add: ex_created_def getPlayURLs_nonempty getPlayURLs_def ex_config_def)
  have c: "live_sessions ex_db_null = [ex_null_row]" "id_col ex_null_row = 1"
    "status ex_null_row = ''live''" "end_time ex_null_row = None"
    by (simp_all add: ex_db_null_def ex_null_row_def)
  from a b c ex_run_null ex_get_null show ?thesis
    by (intro conjI)
qed

section \<open>Starting a session\<close>

lemma startLiveSession_fst:
  assumes "\<not> exec_err e" "\<not> rows_affected_err e"
  shows "fst (startLiveSession e i d) =
     (if \<exists>r \<in> set (live_sessions d). id_col r = i \<and> status r = ''pending''
      then started
      else not_started)"
proof -
  have "fst (startLiveSession e i d) =
     (if fst (sql_update (\<lambda>r. id_col r = i \<and> status r = ''pending'')
               (\<lambda>r. r\<lparr>status := ''live'', start_time := Some (NOW e)\<rparr>) (live_sessions d)) = 0
      then not_started
      else started)"
    using assms
    by (simp add: startLiveSession_def started_def not_started_def split: prod.splits)
  then show ?thesis by (simp only: sql_update_count) auto
qed

lemma startLiveSession_no_match:
  assumes "\<not> (\<exists>r \<in> set (live_sessions d). id_col r = i \<and> status r = ''pending'')"
  shows "snd (startLiveSession e i d) = d"
  using sql_update_no_match [OF assms] by (simp add: startLiveSession_db)

lemma startLiveSession_rows:
  "\<not> exec_err e \<Longrightarrow> live_sessions (snd (startLiveSession e i d)) =
     map (\<lambda>r. if id_col r = i \<and> status r = ''pending''
               then r\<lparr>status := ''live'', start_time := Some (NOW e)\<rparr> else r) (live_sessions d)"
  by (simp add: startLiveSession_db sql_update_rows)

text \<open>
  Claim C2. When the store executes the statement and reports its row count,
  \<open>startLiveSession\<close> answers 200 if and only if some row has the identifier and the
  status \<open>pending\<close>; each such row is then \<open>live\<close> with \<open>start_time\<close> the store's
  \<open>NOW()\<close>, and every other row is as before. In every other case, whether no row has
  the identifier or the row has another status, the answer is the same 400 body and
  the database is unchanged.
\<close>

theorem startLiveSession_succeeds_iff_pending:
  assumes "\<not> exec_err e" and "\<not> rows_affected_err e"
  shows "(fst (startLiveSession e i d) = started
            \<longleftrightarrow> (\<exists>r \<in> set (live_sessions d). id_col r = i \<and> status r = ''pending'')) \<and>
         (fst (startLiveSession e i d) \<noteq> started
            \<longrightarrow> startLiveSession e i d = (not_started, d)) \<and>
         list_all2 (\<lambda>r r'. r' = (if id_col r = i \<and> status r = ''pending''
                                  then r\<lparr>status := ''live'', start_time := Some (NOW e)\<rparr> else r))
           (live_sessions d) (live_sessions (snd (startLiveSession e i d)))"
proof (intro conjI impI)
  show "fst (startLiveSession e i d) = started
          \<longleftrightarrow> (\<exists>r \<in> set (live_sessions d). id_col r = i \<and> status r = ''pending'')"
    by (simp add: startLiveSession_fst [OF assms] started_def not_started_def http_status_defs)
next
  assume "fst (startLiveSession e i d) \<noteq> started"
  then have no: "\<not> (\<exists>r \<in> set (live_sessions d). id_col r = i \<and> status r = ''pending'')"
    by (simp add: startLiveSession_fst [OF assms] split: if_splits)
  then have "fst (startLiveSession e i d) = not_started"
    by (simp only: startLiveSession_fst [OF assms] if_False)
  moreover have "snd (startLiveSession e i d) = d"
    using no by (rule startLiveSession_no_match)
  ultimately show "startLiveSession e i d = (not_started, d)"
    by (simp add: prod_eq_iff)
next
  show "list_all2 (\<lambda>r r'. r' = (if id_col r = i \<and> status r = ''pending''
                                  then r\<lparr>status := ''live'', start_time := Some (NOW e)\<rparr> else r))
           (live_sessions d) (live_sessions (snd (startLiveSession e i d)))"
    by (simp add: startLiveSession_rows [OF assms(1)] list_all2_map2 list_all2_same)
qed

theorem startLiveSession_succeeds_iff_pending_witness:
  "\<not> exec_err ex_env \<and> \<not> rows_affected_err ex_env \<and>
   fst (startLiveSession ex_env 2 ex_db2) = started \<and>
   live_sessions (snd (startLiveSession ex_env 2 ex_db2)) = [ex_row, ex_live_row2] \<and>
   startLiveSession ex_env 1 ex_db2 = (not_started, ex_db2) \<and>
   startLiveSession ex_env 7 ex_db2 = (not_started, ex_db2)"
proof -
  have e: "\<not> exec_err ex_env" "\<not> rows_affected_err ex_env"
    by (simp_all add: ex_env_sel)
  have n1: "\<not> (\<exists>r \<in> set (live_sessions ex_db2). id_col r = 1 \<and> status r = ''pending'')"
    by (simp add: ex_db2_def ex_db_def ex_row_def ex_pending_row_def)
  have n7: "\<not> (\<exists>r \<in> set (live_sessions ex_db2). id_col r = 7 \<and> status r = ''pending'')"
    by (simp add: ex_db2_def ex_db_def ex_row_def ex_pending_row_def)
  have rows: "live_sessions (snd (startLiveSession ex_env 2 ex_db2)) = [ex_row, ex_live_row2]"
    by (simp add: ex_start2 ex_db3_def)
  from startLiveSession_succeeds_iff_pending [OF e, of 2 ex_db2]
    startLiveSession_succeeds_iff_pending [OF e, of 1 ex_db2]
    startLiveSession_succeeds_iff_pending [OF e, of 7 ex_db2]
    e ex_pending2 n1 n7 rows
  show ?thesis by blast
qed

section \<open>The life cycle of a session\<close>

lemma lifecycle_step_ended: "lifecycle_step ''ended'' b \<longleftrightarrow> b = ''ended''"
  by (auto simp: lifecycle_step_def)

lemma lifecycle_step_pending: "lifecycle_step ''pending'' b \<longleftrightarrow> b = ''pending'' \<or> b = ''live''"
  by (auto simp: lifecycle_step_def)

text \<open>
  Claim C3. Take any database whose identifiers lie below the counter, run any sequence
  of Create, Get, Start, End and callback requests on it, each in any environment, and
  then one more request. The rows that were there are still there, in place and with
  their identifiers, and the status of each has made one move of the life cycle at most:
  it is as before, or went from \<open>pending\<close> to \<open>live\<close>, or from \<open>live\<close> to \<open>ended\<close>. So
  an ended session stays ended and a pending one is never ended directly
  (\<open>lifecycle_step_ended\<close>, \<open>lifecycle_step_pending\<close>). Every row the request added is
  \<open>pending\<close>.
\<close>

theorem status_moves_along_lifecycle:
  assumes "wf_db d0"
  shows "let d = run config reqs d0; d' = snd (handle config e q d);
             n = length (live_sessions d)
         in n \<le> length (live_sessions d') \<and>
            list_all2 session_step (live_sessions d) (take n (live_sessions d')) \<and>
            list_all (\<lambda>r. status r = ''pending'') (drop n (live_sessions d'))"
proof -
  define d where "d = run config reqs d0"
  have "wf_db d" unfolding d_def using assms by (rule run_wf)
  from handle_rows [OF this, of config e q]
  obtain rs new where eq: "live_sessions (snd (handle config e q d)) = rs @ new"
    and rel: "list_all2 (row_step (NOW e)) (live_sessions d) rs"
    and new: "\<forall>r \<in> set new. status r = ''pending''"
    by blast
  from rel have len: "length rs = length (live_sessions d)"
    by (simp add: list_all2_lengthD)
  from rel have "list_all2 session_step (live_sessions d) rs"
    by (rule list_all2_mono) (rule row_step_session_step)
  then show ?thesis
    unfolding Let_def d_def [symmetric] using eq new len
    by (simp add: list_all_iff)
qed

theorem status_moves_along_lifecycle_witness:
  "wf_db ex_db \<and>
   run ex_config [(ex_env, Create (Inr 42)), (ex_env, Start 2)] ex_db = ex_db3 \<and>
   live_sessions ex_db3 = [ex_row, ex_live_row2] \<and>
   live_sessions (snd (handle ex_config ex_env (End 2) ex_db3)) = [ex_row, ex_ended_row2] \<and>
   list_all2 session_step [ex_row, ex_live_row2] [ex_row, ex_ended_row2] \<and>
   status ex_live_row2 = ''live'' \<and> status ex_ended_row2 = ''ended''"
proof -
  have rows: "live_sessions ex_db3 = [ex_row, ex_live_row2]"
    by (simp add: ex_db3_def)
  have rows': "live_sessions (snd (handle ex_config ex_env (End 2) ex_db3)) = [ex_row, ex_ended_row2]"
    by (simp add: ex_end2)
  have st: "status ex_live_row2 = ''live''" "status ex_ended_row2 = ''ended''"
    by (simp_all add: ex_live_row2_def ex_ended_row2_def)
  from status_moves_along_lifecycle [OF ex_wf(1), of ex_config
      "[(ex_env, Create (Inr 42)), (ex_env, Start 2)]" ex_env "End 2"]
  have "list_all2 session_step [ex_row, ex_live_row2] [ex_row, ex_ended_row2]"
    unfolding Let_def ex_run rows rows' by simp
  with ex_wf(1) ex_run rows rows' st show ?thesis by blast
qed

section \<open>Create when the streaming backend refuses the stream\<close>

lemma getLiveSession_absent:
  assumes "\<not> query_err e" and "\<forall>r \<in> set (live_sessions d). id_col r \<noteq> i"
  shows "getLiveSession config e i d = (JSON StatusNotFound (Error ''Live session not found''), d)"
proof -
  have "find (\<lambda>r. id_col r = i) (live_sessions d) = None"
    using assms(2) by (simp add: find_None_iff)
  with assms(1) show ?thesis
    by (simp add: getLiveSession_def sql_query_row_def)
qed

text \<open>
  Claim C4. Let the identifiers of the table lie below its counter, let the INSERT and
  \<open>LastInsertId\<close> succeed, let \<open>createStreamInLivego\<close> return an error, and let the store
  execute the DELETE of the rollback (the handler ignores what that DELETE returns).
  Then \<open>createLiveSession\<close> answers 500 with the provisioning failure and leaves the
  rows of the table exactly as they were before the request: only the counter has
  advanced. A Get of the identifier the request had been given, \<open>LastInsertId\<close>, which is
  the counter's value before the request, answers 404.
\<close>

theorem createLiveSession_rollback:
  assumes wf: "wf_db d"
    and key: "generateStreamKey e = Some streamKey"
    and ins: "\<not> exec_err e" "\<not> last_insert_id_err e"
    and prov: "createStreamInLivego config e streamKey = Some err"
    and del: "\<not> rollback_err e"
    and q: "\<not> query_err e'"
  shows "createLiveSession config e (Inr courseID) d =
           (JSON StatusInternalServerError (Error ''Failed to create stream in Livego''),
            d\<lparr>live_sessions_auto_increment := live_sessions_auto_increment d + 1\<rparr>) \<and>
         fst (getLiveSession config e' (live_sessions_auto_increment d)
               (snd (createLiveSession config e (Inr courseID) d))) =
           JSON StatusNotFound (Error ''Live session not found'')"
proof -
  have fresh: "\<forall>r \<in> set (live_sessions d). id_col r < live_sessions_auto_increment d"
    using wf by (simp add: wf_db_def list_all_iff)
  then have "\<And>new. id_col new = live_sessions_auto_increment d \<Longrightarrow>
      sql_delete (\<lambda>r. id_col r = live_sessions_auto_increment d) (live_sessions d @ [new]) =
        live_sessions d"
    by (rule sql_delete_fresh)
  then have c: "createLiveSession config e (Inr courseID) d =
           (JSON StatusInternalServerError (Error ''Failed to create stream in Livego''),
            d\<lparr>live_sessions_auto_increment := live_sessions_auto_increment d + 1\<rparr>)"
    using key ins prov del
    by (simp add: createLiveSession_def insert_live_session_def Let_def)
  have "\<forall>r \<in> set (live_sessions d). id_col r \<noteq> live_sessions_auto_increment d"
    using fresh by fastforce
  then have "getLiveSession config e' (live_sessions_auto_increment d)
      (d\<lparr>live_sessions_auto_increment := live_sessions_auto_increment d + 1\<rparr>) =
      (JSON StatusNotFound (Error ''Live session not found''),
       d\<lparr>live_sessions_auto_increment := live_sessions_auto_increment d + 1\<rparr>)"
    using q by (intro getLiveSession_absent) simp_all
  with c show ?thesis by simp
qed

theorem createLiveSession_rollback_witness:
  "wf_db ex_db \<and>
   generateStreamKey ex_env_down = Some ''live_1700000000_AAAAAAAAAA'' \<and>
   \<not> exec_err ex_env_down \<and> \<not> last_insert_id_err ex_env_down \<and>
   createStreamInLivego ex_config ex_env_down ''live_1700000000_AAAAAAAAAA'' =
     Some ''failed to create stream in Livego: 503 Service Unavailable'' \<and>
   \<not> rollback_err ex_env_down \<and> \<not> query_err ex_env \<and>
   createLiveSession ex_config ex_env_down (Inr 42) ex_db =
     (JSON StatusInternalServerError (Error ''Failed to create stream in Livego''),
      ex_db\<lparr>live_sessions_auto_increment := live_sessions_auto_increment ex_db + 1\<rparr>) \<and>
   fst (getLiveSession ex_config ex_env (live_sessions_auto_increment ex_db)
         (snd (createLiveSession ex_config ex_env_down (Inr 42) ex_db))) =
     JSON StatusNotFound (Error ''Live session not found'')"
proof -
  have h: "\<not> exec_err ex_env_down" "\<not> last_insert_id_err ex_env_down"
    "\<not> rollback_err ex_env_down" "\<not> query_err ex_env"
    by (simp_all add: ex_env_down_sel ex_env_sel)
  from createLiveSession_rollback [OF ex_wf(1) ex_key_down h(1,2) ex_provision_down h(3,4),
      where courseID = 42]
    ex_wf(1) ex_key_down ex_provision_down [of "''live_1700000000_AAAAAAAAAA''"] h
  show ?thesis by blast
qed

section \<open>The status callback\<close>

lemma callback_unfold:
  assumes "3 \<le> length (strings_Split (callback_StreamPath cb) CHR ''/'')"
  shows "handleLiveStatusCallback e (Inr cb) d =
     (ack,
      if callback_Status cb = ''start''
      then (if exec_err e then d
            else d\<lparr>live_sessions :=
                    snd (sql_update
                           (\<lambda>r. stream_key r = strings_Split (callback_StreamPath cb) CHR ''/'' ! 2 \<and>
                                status r = ''pending'')
                           (\<lambda>r. r\<lparr>status := ''live'', start_time := Some (NOW e)\<rparr>)
                           (live_sessions d))\<rparr>)
      else if callback_Status cb = ''stop''
      then (if exec_err e then d
            else d\<lparr>live_sessions :=
                    snd (sql_update
                           (\<lambda>r. stream_key r = strings_Split (callback_StreamPath cb) CHR ''/'' ! 2 \<and>
                                status r = ''live'')
                           (\<lambda>r. r\<lparr>status := ''ended'', end_time := Some (NOW e)\<rparr>)
                           (live_sessions d))\<rparr>)
      else d)"
  using assms by (simp add: handleLiveStatusCallback_def Let_def ack_def)

text \<open>
  Claim C5. Let the stream path of a callback have at least three pieces, so that the
  third is the stream key. If no session has this key together with the status the event
  needs (\<open>pending\<close> for \<open>start\<close>, \<open>live\<close> for \<open>stop\<close>; there is none for any other event),
  the handler leaves the database as it is and answers 200 with the acknowledgement.
  And when the store has executed the statement of a callback, the same callback
  delivered again, at any later instant, changes nothing and is acknowledged again.
\<close>

theorem callback_without_match_is_acknowledged:
  assumes path: "3 \<le> length (strings_Split (callback_StreamPath cb) CHR ''/'')"
  shows "(\<not> (\<exists>r \<in> set (live_sessions d).
              stream_key r = strings_Split (callback_StreamPath cb) CHR ''/'' ! 2 \<and>
              (callback_Status cb = ''start'' \<and> status r = ''pending'' \<or>
               callback_Status cb = ''stop'' \<and> status r = ''live''))
          \<longrightarrow> handleLiveStatusCallback e (Inr cb) d = (ack, d)) \<and>
         (\<not> exec_err e
          \<longrightarrow> handleLiveStatusCallback e' (Inr cb) (snd (handleLiveStatusCallback e (Inr cb) d)) =
                (ack, snd (handleLiveStatusCallback e (Inr cb) d)))"
proof (intro conjI impI)
  let ?k = "strings_Split (callback_StreamPath cb) CHR ''/'' ! 2"
  assume no: "\<not> (\<exists>r \<in> set (live_sessions d). stream_key r = ?k \<and>
              (callback_Status cb = ''start'' \<and> status r = ''pending'' \<or>
               callback_Status cb = ''stop'' \<and> status r = ''live''))"
  show "handleLiveStatusCallback e (Inr cb) d = (ack, d)"
  proof (cases "callback_Status cb = ''start''")
    case True
    with no have "\<not> (\<exists>r \<in> set (live_sessions d). stream_key r = ?k \<and> status r = ''pending'')"
      by blast
    from sql_update_no_match [OF this] True show ?thesis
      by (simp add: callback_unfold [OF path])
  next
    case False
    show ?thesis
    proof (cases "callback_Status cb = ''stop''")
      case True
      with no have "\<not> (\<exists>r \<in> set (live_sessions d). stream_key r = ?k \<and> status r = ''live'')"
        by blast
      from sql_update_no_match [OF this] True show ?thesis
        by (simp add: callback_unfold [OF path])
    next
      case False
      with \<open>callback_Status cb \<noteq> ''start''\<close> show ?thesis
        by (simp add: callback_unfold [OF path])
    qed
  qed
next
  let ?k = "strings_Split (callback_StreamPath cb) CHR ''/'' ! 2"
  assume ok: "\<not> exec_err e"
  have 1: "\<And>now now' rs. snd (sql_update (\<lambda>r. stream_key r = ?k \<and> status r = ''pending'')
        (\<lambda>r. r\<lparr>status := ''live'', start_time := Some now'\<rparr>)
        (snd (sql_update (\<lambda>r. stream_key r = ?k \<and> status r = ''pending'')
        (\<lambda>r. r\<lparr>status := ''live'', start_time := Some now\<rparr>) rs))) =
      snd (sql_update (\<lambda>r. stream_key r = ?k \<and> status r = ''pending'')
        (\<lambda>r. r\<lparr>status := ''live'', start_time := Some now\<rparr>) rs)"
    by (rule sql_update_no_match, rule sql_update_exhausts) simp
  have 2: "\<And>now now' rs. snd (sql_update (\<lambda>r. stream_key r = ?k \<and> status r = ''live'')
        (\<lambda>r. r\<lparr>status := ''ended'', end_time := Some now'\<rparr>)
        (snd (sql_update (\<lambda>r. stream_key r = ?k \<and> status r = ''live'')
        (\<lambda>r. r\<lparr>status := ''ended'', end_time := Some now\<rparr>) rs))) =
      snd (sql_update (\<lambda>r. stream_key r = ?k \<and> status r = ''live'')
        (\<lambda>r. r\<lparr>status := ''ended'', end_time := Some now\<rparr>) rs)"
    by (rule sql_update_no_match, rule sql_update_exhausts) simp
  show "handleLiveStatusCallback e' (Inr cb) (snd (handleLiveStatusCallback e (Inr cb) d)) =
          (ack, snd (handleLiveStatusCallback e (Inr cb) d))"
    using ok by (simp add: callback_unfold [OF path] 1 2)
qed

theorem callback_without_match_is_acknowledged_witness:
  "3 \<le> length (strings_Split (callback_StreamPath ex_callback) CHR ''/'') \<and>
   strings_Split (callback_StreamPath ex_callback) CHR ''/'' ! 2 = ''unknown'' \<and>
   \<not> (\<exists>r \<in> set (live_sessions ex_db2).
         stream_key r = strings_Split (callback_StreamPath ex_callback) CHR ''/'' ! 2 \<and>
         (callback_Status ex_callback = ''start'' \<and> status r = ''pending'' \<or>
          callback_Status ex_callback = ''stop'' \<and> status r = ''live'')) \<and>
   handleLiveStatusCallback ex_env (Inr ex_callback) ex_db2 = (ack, ex_db2) \<and>
   \<not> exec_err ex_env \<and>
   handleLiveStatusCallback ex_env_later (Inr ex_callback)
       (snd (handleLiveStatusCallback ex_env (Inr ex_callback) ex_db2)) =
     (ack, snd (handleLiveStatusCallback ex_env (Inr ex_callback) ex_db2))"
proof -
  have sp: "strings_Split (callback_StreamPath ex_callback) CHR ''/'' = [[], ''live'', ''unknown'']"
    by (simp add: ex_callback_def)
  have path: "3 \<le> length (strings_Split (callback_StreamPath ex_callback) CHR ''/'')"
    by (simp add: sp)
  have k: "strings_Split (callback_StreamPath ex_callback) CHR ''/'' ! 2 = ''unknown''"
    by (simp add: sp)
  have no: "\<not> (\<exists>r \<in> set (live_sessions ex_db2).
         stream_key r = strings_Split (callback_StreamPath ex_callback) CHR ''/'' ! 2 \<and>
         (callback_Status ex_callback = ''start'' \<and> status r = ''pending'' \<or>
          callback_Status ex_callback = ''stop'' \<and> status r = ''live''))"
    unfolding k by (simp add: ex_db2_def ex_db_def ex_row_def ex_pending_row_def)
  have e: "\<not> exec_err ex_env"
    by (simp add: ex_env_sel)
  from callback_without_match_is_acknowledged [OF path, of ex_db2 ex_env ex_env_later]
    path k no e
  show ?thesis by blast
qed

section \<open>Stream keys of two sessions\<close>

text \<open>
  Claim C6 does not hold of the code. Two Create requests arrive in the same second;
  every clock reading of the second request is 31 microseconds after the readings of the
  first, a multiple of 62 nanoseconds. \<open>generateStreamKey\<close> returns the same key in both
  requests, both requests succeed, with the identifiers 2 and 3, and both sessions are
  given that key.
\<close>

theorem stream_key_collision:
  "time_Now_UnixNano ex_env_later 0 \<noteq> time_Now_UnixNano ex_env 0 \<and>
   generateStreamKey ex_env = Some ''live_1700000000_AAAAAAAAAA'' \<and>
   generateStreamKey ex_env_later = Some ''live_1700000000_AAAAAAAAAA'' \<and>
   createLiveSession ex_config ex_env (Inr 42) ex_db =
     (JSON StatusCreated (SessionBody ex_created), ex_db2) \<and>
   fst (createLiveSession ex_config ex_env_later (Inr 43) ex_db2) =
     JSON StatusCreated (SessionBody ex_created_later) \<and>
   ID ex_created = 2 \<and> ID ex_created_later = 3 \<and>
   StreamKey ex_created = ''live_1700000000_AAAAAAAAAA'' \<and>
   StreamKey ex_created_later = ''live_1700000000_AAAAAAAAAA''"
proof -
  have "fst (createLiveSession ex_config ex_env_later (Inr 43) ex_db2) =
      JSON StatusCreated (SessionBody ex_created_later)"
    by (simp add: createLiveSession_def ex_key_later ex_provision_later insert_live_session_def
        ex_env_later_sel ex_db2_def ex_created_later_def ex_created_def)
  moreover have "time_Now_UnixNano ex_env_later 0 \<noteq> time_Now_UnixNano ex_env 0"
    by (simp add: ex_env_later_def ex_env_def)
  ultimately show ?thesis
    by (simp add: ex_create ex_key ex_key_later) (simp add: ex_created_later_def ex_created_def)
qed

section \<open>Two Start requests in flight at once\<close>

lemma start_twice:
  assumes e1: "\<not> exec_err e1" "\<not> rows_affected_err e1"
    and e2: "\<not> exec_err e2" "\<not> rows_affected_err e2"
    and ex: "\<exists>r \<in> set (live_sessions d). id_col r = i \<and> status r = ''pending''"
  shows "fst (startLiveSession e1 i d) = started"
    and "fst (startLiveSession e2 i (snd (startLiveSession e1 i d))) = not_started"
    and "snd (startLiveSession e2 i (snd (startLiveSession e1 i d))) = snd (startLiveSession e1 i d)"
proof -
  show "fst (startLiveSession e1 i d) = started"
    using ex by (simp only: startLiveSession_fst [OF e1] if_True)
  have no: "\<not> (\<exists>r \<in> set (live_sessions (snd (startLiveSession e1 i d))).
              id_col r = i \<and> status r = ''pending'')"
    using e1(1) sql_update_exhausts [of "\<lambda>r. id_col r = i \<and> status r = ''pending''"
        "\<lambda>r. r\<lparr>status := ''live'', start_time := Some (NOW e1)\<rparr>" "live_sessions d"]
    by (simp add: startLiveSession_db)
  then show "fst (startLiveSession e2 i (snd (startLiveSession e1 i d))) = not_started"
    by (simp only: startLiveSession_fst [OF e2] if_False)
  show "snd (startLiveSession e2 i (snd (startLiveSession e1 i d))) = snd (startLiveSession e1 i d)"
    using no by (rule startLiveSession_no_match)
qed

text \<open>
  Claim C7. The handler of Start executes one statement on the store, the UPDATE that
  holds both the condition on the status and the change, and the store executes
  statements one at a time. So two Start requests for one identifier that are in flight
  at once run in one of two orders. When a pending session has the identifier and the
  store executes both statements, then in either order one request is answered 200 and
  the other 400, two different responses, and the database left is the one the winner
  alone leaves: the second statement changes nothing, the start time is the winner's.
\<close>

theorem concurrent_starts_one_winner:
  assumes "\<not> exec_err e1" "\<not> rows_affected_err e1" "\<not> exec_err e2" "\<not> rows_affected_err e2"
    and "\<exists>r \<in> set (live_sessions d). id_col r = i \<and> status r = ''pending''"
  shows "set (serializations (startLiveSession e1 i) (startLiveSession e2 i) d) =
           {((started, not_started), snd (startLiveSession e1 i d)),
            ((not_started, started), snd (startLiveSession e2 i d))} \<and>
         started \<noteq> not_started"
proof -
  have ne: "started \<noteq> not_started"
    by (simp add: started_def not_started_def http_status_defs)
  have a: "startLiveSession e2 i (snd (startLiveSession e1 i d)) =
      (not_started, snd (startLiveSession e1 i d))"
    using start_twice(2,3) [OF assms(1,2,3,4,5)] by (simp only: prod_eq_iff fst_conv snd_conv simp_thms)
  have b: "startLiveSession e1 i (snd (startLiveSession e2 i d)) =
      (not_started, snd (startLiveSession e2 i d))"
    using start_twice(2,3) [OF assms(3,4,1,2,5)] by (simp only: prod_eq_iff fst_conv snd_conv simp_thms)
  have "set (serializations (startLiveSession e1 i) (startLiveSession e2 i) d) =
           {((started, not_started), snd (startLiveSession e1 i d)),
            ((not_started, started), snd (startLiveSession e2 i d))}"
    unfolding serializations_def case_prod_beta a b
    using start_twice(1) [OF assms(1,2,3,4,5)] start_twice(1) [OF assms(3,4,1,2,5)]
    by simp
  with ne show ?thesis by (rule conjI [rotated])
qed

theorem concurrent_starts_one_winner_witness:
  "\<not> exec_err ex_env \<and> \<not> rows_affected_err ex_env \<and>
   \<not> exec_err ex_env_later \<and> \<not> rows_affected_err ex_env_later \<and>
   (\<exists>r \<in> set (live_sessions ex_db2). id_col r = 2 \<and> status r = ''pending'') \<and>
   set (serializations (startLiveSession ex_env 2) (startLiveSession ex_env_later 2) ex_db2) =
     {((started, not_started), snd (startLiveSession ex_env 2 ex_db2)),
      ((not_started, started), snd (startLiveSession ex_env_later 2 ex_db2))} \<and>
   snd (startLiveSession ex_env 2 ex_db2) = ex_db3 \<and>
   started \<noteq> not_started"
proof -
  have h: "\<not> exec_err ex_env" "\<not> rows_affected_err ex_env"
    "\<not> exec_err ex_env_later" "\<not> rows_affected_err ex_env_later"
    by (simp_all add: ex_env_sel ex_env_later_def)
  have d: "snd (startLiveSession ex_env 2 ex_db2) = ex_db3"
    by (simp add: ex_start2)
  from concurrent_starts_one_winner [OF h ex_pending2] h ex_pending2 d
  show ?thesis by blast
qed

section \<open>What Start and End leave untouched\<close>

lemma start_frame_rows:
  "list_all2 (start_frame i) rs
     (snd (sql_update (\<lambda>r. id_col r = i \<and> status r = ''pending'')
               (\<lambda>r. r\<lparr>status := ''live'', start_time := Some now\<rparr>) rs))"
  by (rule sql_update_rel) (simp_all add: start_frame_def same_identity_def)

lemma end_frame_rows:
  "list_all2 (end_frame i) rs
     (snd (sql_update (\<lambda>r. id_col r = i \<and> status r = ''live'')
               (\<lambda>r. r\<lparr>status := ''ended'', end_time := Some now\<rparr>) rs))"
  by (rule sql_update_rel) (simp_all add: end_frame_def same_identity_def)

lemma row_step_stamps: "row_step now r r' \<Longrightarrow> stamps_frame r r'"
  by (auto simp: row_step_def stamps_frame_def same_identity_def)

text \<open>
  Claim C9. \<open>startLiveSession\<close>, whatever it answers, writes nothing but the table of
  sessions, and there it leaves every row in place with its \<open>id\<close>, \<open>course_id\<close>,
  \<open>stream_key\<close>, \<open>created_at\<close> and \<open>end_time\<close>; the \<open>status\<close> or the \<open>start_time\<close>
  differs only in a row that has the requested identifier and went from \<open>pending\<close> to
  \<open>live\<close>. \<open>endLiveSession\<close> does the same with \<open>start_time\<close> kept, and \<open>status\<close> or
  \<open>end_time\<close> differing only in a row with the identifier that went from \<open>live\<close> to
  \<open>ended\<close>. And for every request of the live-session routes, on a database whose
  identifiers lie below the counter: the rows that were there keep those four columns,
  a \<open>start_time\<close> changes only with the move from \<open>pending\<close> to \<open>live\<close>, and an
  \<open>end_time\<close> only with the move from \<open>live\<close> to \<open>ended\<close>.
\<close>

theorem start_end_frame:
  "snd (startLiveSession e i d) = d\<lparr>live_sessions := live_sessions (snd (startLiveSession e i d))\<rparr> \<and>
   list_all2 (start_frame i) (live_sessions d) (live_sessions (snd (startLiveSession e i d))) \<and>
   snd (endLiveSession e i d) = d\<lparr>live_sessions := live_sessions (snd (endLiveSession e i d))\<rparr> \<and>
   list_all2 (end_frame i) (live_sessions d) (live_sessions (snd (endLiveSession e i d))) \<and>
   (wf_db d \<longrightarrow>
      list_all2 stamps_frame (live_sessions d)
        (take (length (live_sessions d)) (live_sessions (snd (handle config e q d)))))"
proof (intro conjI impI)
  show "snd (startLiveSession e i d) =
      d\<lparr>live_sessions := live_sessions (snd (startLiveSession e i d))\<rparr>"
    by (simp add: startLiveSession_db)
next
  show "list_all2 (start_frame i) (live_sessions d) (live_sessions (snd (startLiveSession e i d)))"
  proof (cases "exec_err e")
    case True
    then show ?thesis
      by (simp add: startLiveSession_db list_all2_same start_frame_def same_identity_def)
  next
    case False
    then show ?thesis
      using start_frame_rows [of i "live_sessions d" "NOW e"] by (simp add: startLiveSession_db)
  qed
next
  show "snd (endLiveSession e i d) = d\<lparr>live_sessions := live_sessions (snd (endLiveSession e i d))\<rparr>"
    by (simp add: endLiveSession_db)
next
  show "list_all2 (end_frame i) (live_sessions d) (live_sessions (snd (endLiveSession e i d)))"
  proof (cases "exec_err e")
    case True
    then show ?thesis
      by (simp add: endLiveSession_db list_all2_same end_frame_def same_identity_def)
  next
    case False
    then show ?thesis
      using end_frame_rows [of i "live_sessions d" "NOW e"] by (simp add: endLiveSession_db)
  qed
next
  assume "wf_db d"
  from handle_rows [OF this, of config e q]
  obtain rs new where eq: "live_sessions (snd (handle config e q d)) = rs @ new"
    and rel: "list_all2 (row_step (NOW e)) (live_sessions d) rs"
    by blast
  from rel have len: "length rs = length (live_sessions d)"
    by (simp add: list_all2_lengthD)
  from rel have "list_all2 stamps_frame (live_sessions d) rs"
    by (rule list_all2_mono) (rule row_step_stamps)
  with eq len show "list_all2 stamps_frame (live_sessions d)
        (take (length (live_sessions d)) (live_sessions (snd (handle config e q d))))"
    by simp
qed

theorem start_end_frame_witness:
  "live_sessions ex_db2 = [ex_row, ex_pending_row] \<and>
   live_sessions (snd (startLiveSession ex_env 2 ex_db2)) = [ex_row, ex_live_row2] \<and>
   start_time ex_live_row2 \<noteq> start_time ex_pending_row \<and>
   id_col ex_pending_row = 2 \<and>
   status ex_pending_row = ''pending'' \<and> status ex_live_row2 = ''live'' \<and>
   same_identity ex_pending_row ex_live_row2 \<and>
   end_time ex_live_row2 = end_time ex_pending_row \<and>
   live_sessions ex_db3 = [ex_row, ex_live_row2] \<and>
   live_sessions (snd (endLiveSession ex_env 2 ex_db3)) = [ex_row, ex_ended_row2] \<and>
   end_time ex_ended_row2 \<noteq> end_time ex_live_row2 \<and>
   status ex_ended_row2 = ''ended'' \<and>
   same_identity ex_live_row2 ex_ended_row2 \<and>
   start_time ex_ended_row2 = start_time ex_live_row2 \<and>
   wf_db ex_db3 \<and>
   live_sessions (snd (handle ex_config ex_env (End 2) ex_db3)) = [ex_row, ex_ended_row2] \<and>
   stamps_frame ex_live_row2 ex_ended_row2"
proof -
  have r2: "live_sessions ex_db2 = [ex_row, ex_pending_row]"
    by (simp add: ex_db2_def)
  have r2': "live_sessions (snd (startLiveSession ex_env 2 ex_db2)) = [ex_row, ex_live_row2]"
    by (simp add: ex_start2 ex_db3_def)
  have r3: "live_sessions ex_db3 = [ex_row, ex_live_row2]"
    by (simp add: ex_db3_def)
  have r3': "live_sessions (snd (endLiveSession ex_env 2 ex_db3)) = [ex_row, ex_ended_row2]"
    by (simp add: ex_end2)
  have r3'': "live_sessions (snd (handle ex_config ex_env (End 2) ex_db3)) = [ex_row, ex_ended_row2]"
    by (simp add: ex_end2)
  have ne: "start_time ex_live_row2 \<noteq> start_time ex_pending_row"
    "end_time ex_ended_row2 \<noteq> end_time ex_live_row2"
    by (simp_all add: ex_live_row2_def ex_pending_row_def ex_ended_row2_def)
  note t = start_end_frame [of ex_env 2 ex_db2 ex_config "Start 2"]
    start_end_frame [of ex_env 2 ex_db3 ex_config "End 2"]
  from t(1) have a: "start_frame 2 ex_pending_row ex_live_row2"
    unfolding r2 r2' by simp
  from t(2) have b: "end_frame 2 ex_live_row2 ex_ended_row2"
    unfolding r3 r3' by simp
  from t(2) ex_wf(3) have c: "stamps_frame ex_live_row2 ex_ended_row2"
    unfolding r3 r3'' by simp
  from a b ne have "id_col ex_pending_row = 2 \<and>
      status ex_pending_row = ''pending'' \<and> status ex_live_row2 = ''live'' \<and>
      same_identity ex_pending_row ex_live_row2 \<and>
      end_time ex_live_row2 = end_time ex_pending_row \<and>
      status ex_ended_row2 = ''ended'' \<and>
      same_identity ex_live_row2 ex_ended_row2 \<and>
      start_time ex_ended_row2 = start_time ex_live_row2"
    unfolding start_frame_def end_frame_def by blast
  with c ne r2 r2' r3 r3' r3'' ex_wf(3) show ?thesis by blast
qed

section \<open>The options of a question\<close>

lemma strings_Split_no_sep: "sep \<notin> set x \<Longrightarrow> strings_Split x sep = [x]"
  by (induction x) auto

lemma strings_Split_piece:
  "sep \<notin> set x \<Longrightarrow> strings_Split (x @ sep # rest) sep = x # strings_Split rest sep"
  by (induction x) auto

lemma strings_Split_Join:
  assumes "xs \<noteq> []" and "list_all (\<lambda>x. CHR '','' \<notin> set x) xs"
  shows "strings_Split (strings_Join xs '','') CHR '','' = xs"
  using assms
proof (induction xs "'',''" rule: strings_Join.induct)
  case 1
  then show ?case by simp
next
  case (2 x)
  then show ?case by (simp add: strings_Split_no_sep)
next
  case (3 x y ys)
  then show ?case by (simp add: strings_Split_piece)
qed

lemma find_fresh:
  assumes "\<forall>x \<in> set xs. \<not> P x" and "P y"
  shows "find P (xs @ [y]) = Some y"
  using assms by (induction xs) simp_all

lemma createQuestion_response:
  "\<not> exec_err e \<Longrightarrow> \<not> last_insert_id_err e \<Longrightarrow>
   fst (createQuestion e (Inr q) d) =
     JSON StatusCreated (QuestionBody (q\<lparr>Question_ID := questions_auto_increment d\<rparr>))"
  by (simp add: createQuestion_def Let_def)

lemma pushQuestion_created:
  assumes "\<not> exec_err e" and "\<not> query_err e'" and "wf_questions d"
  shows "pushQuestion e' (Question_CourseID q) (questions_auto_increment d)
           (snd (createQuestion e (Inr q) d)) =
     ((case scan_options e' (strings_Join (Question_Options q) '','') of
         None \<Rightarrow> JSON StatusInternalServerError (Error ''Failed to get question'')
       | Some opts \<Rightarrow>
           JSON StatusOK
             (QuestionBody
                (q\<lparr>Question_ID := questions_auto_increment d, Question_Options := opts\<rparr>))),
      snd (createQuestion e (Inr q) d))"
proof -
  let ?r = "\<lparr>q_id = questions_auto_increment d, q_course_id = Question_CourseID q,
             q_type = Question_Type q, q_content = Question_Content q,
             q_options = strings_Join (Question_Options q) '','',
             q_answer = Question_Answer q\<rparr>"
  have "\<forall>r \<in> set (questions d).
      \<not> (q_id r = questions_auto_increment d \<and> q_course_id r = Question_CourseID q)"
    using assms(3) by (auto simp: wf_questions_def list_all_iff)
  then have "find (\<lambda>r. q_id r = questions_auto_increment d \<and> q_course_id r = Question_CourseID q)
      (questions d @ [?r]) = Some ?r"
    by (rule find_fresh) simp
  with assms(1,2) show ?thesis
    by (simp add: pushQuestion_def sql_query_row_def createQuestion_db split: option.splits)
qed

text \<open>
  Claim C10. When the store executes its INSERT, \<open>createQuestion\<close> appends one row to
  the table of questions, and the \<open>options\<close> column of that row is the options of the
  question joined with commas. This join loses nothing on a nonempty list of options
  without commas, where splitting the text at the commas gives the list back; but it does
  not determine the list in general: the questions \<open>ex_question_a\<close>, with the one option
  \<open>a,b\<close>, and \<open>ex_question_b\<close>, with the two options \<open>a\<close> and \<open>b\<close>, are both stored with
  the text \<open>a,b\<close>, in rows that are equal, and the databases left are equal. When the
  store answers the query, and the identifiers of the table lie below its counter,
  \<open>pushQuestion\<close> of the question just created answers with what \<open>Scan\<close> makes of the
  stored text, 500 if \<open>Scan\<close> fails and otherwise the question with these options. So
  it answers the same for both questions, and does not return the options as submitted
  in both cases.
\<close>

theorem options_join_not_injective:
  "(\<not> exec_err e \<longrightarrow>
      questions (snd (createQuestion e (Inr q) d)) =
        questions d @
          [\<lparr>q_id = questions_auto_increment d, q_course_id = Question_CourseID q,
            q_type = Question_Type q, q_content = Question_Content q,
            q_options = strings_Join (Question_Options q) '','',
            q_answer = Question_Answer q\<rparr>]) \<and>
   (xs \<noteq> [] \<and> list_all (\<lambda>x. CHR '','' \<notin> set x) xs \<longrightarrow>
      strings_Split (strings_Join xs '','') CHR '','' = xs) \<and>
   Question_Options ex_question_a = [''a,b''] \<and>
   Question_Options ex_question_b = [''a'', ''b''] \<and>
   strings_Join (Question_Options ex_question_a) '','' = ''a,b'' \<and>
   strings_Join (Question_Options ex_question_b) '','' = ''a,b'' \<and>
   (\<not> exec_err e \<longrightarrow>
      questions (snd (createQuestion e (Inr ex_question_a) d)) =
        questions d @
          [\<lparr>q_id = questions_auto_increment d, q_course_id = 42, q_type = ''choice'',
            q_content = ''Which one?'', q_options = ''a,b'', q_answer = ''a''\<rparr>]) \<and>
   snd (createQuestion e (Inr ex_question_a) d) = snd (createQuestion e (Inr ex_question_b) d) \<and>
   (\<not> exec_err e \<and> \<not> query_err e' \<and> wf_questions d \<longrightarrow>
      pushQuestion e' (Question_CourseID q) (questions_auto_increment d)
          (snd (createQuestion e (Inr q) d)) =
        ((case scan_options e' (strings_Join (Question_Options q) '','') of
            None \<Rightarrow> JSON StatusInternalServerError (Error ''Failed to get question'')
          | Some opts \<Rightarrow>
              JSON StatusOK
                (QuestionBody
                   (q\<lparr>Question_ID := questions_auto_increment d, Question_Options := opts\<rparr>))),
         snd (createQuestion e (Inr q) d))) \<and>
   pushQuestion e' c i (snd (createQuestion e (Inr ex_question_a) d)) =
     pushQuestion e' c i (snd (createQuestion e (Inr ex_question_b) d)) \<and>
   \<not> (fst (pushQuestion e' c i (snd (createQuestion e (Inr ex_question_a) d))) =
          JSON StatusOK (QuestionBody qa) \<and>
        Question_Options qa = Question_Options ex_question_a \<and>
        fst (pushQuestion e' c i (snd (createQuestion e (Inr ex_question_b) d))) =
          JSON StatusOK (QuestionBody qb) \<and>
        Question_Options qb = Question_Options ex_question_b)"
proof -
  have stored: "\<And>q. \<not> exec_err e \<Longrightarrow>
      questions (snd (createQuestion e (Inr q) d)) =
        questions d @
          [\<lparr>q_id = questions_auto_increment d, q_course_id = Question_CourseID q,
            q_type = Question_Type q, q_content = Question_Content q,
            q_options = strings_Join (Question_Options q) '','',
            q_answer = Question_Answer q\<rparr>]"
    by (simp add: createQuestion_db)
  have oa: "Question_Options ex_question_a = [''a,b'']"
    and ob: "Question_Options ex_question_b = [''a'', ''b'']"
    by (simp_all add: ex_question_a_def ex_question_b_def)
  have ja: "strings_Join (Question_Options ex_question_a) '','' = ''a,b''"
    and jb: "strings_Join (Question_Options ex_question_b) '','' = ''a,b''"
    by (simp_all add: oa ob)
  have ne: "Question_Options ex_question_a \<noteq> Question_Options ex_question_b"
    by (simp add: oa ob)
  have stored_a: "\<not> exec_err e \<Longrightarrow>
      questions (snd (createQuestion e (Inr ex_question_a) d)) =
        questions d @
          [\<lparr>q_id = questions_auto_increment d, q_course_id = 42, q_type = ''choice'',
            q_content = ''Which one?'', q_options = ''a,b'', q_answer = ''a''\<rparr>]"
    using stored [of ex_question_a] by (simp add: ja) (simp add: ex_question_a_def)
  have d: "snd (createQuestion e (Inr ex_question_a) d) = snd (createQuestion e (Inr ex_question_b) d)"
    unfolding createQuestion_db ja jb by (simp add: ex_question_a_def ex_question_b_def)
  have both: "\<not> (fst (pushQuestion e' c i (snd (createQuestion e (Inr ex_question_a) d))) =
          JSON StatusOK (QuestionBody qa) \<and>
        Question_Options qa = Question_Options ex_question_a \<and>
        fst (pushQuestion e' c i (snd (createQuestion e (Inr ex_question_b) d))) =
          JSON StatusOK (QuestionBody qb) \<and>
        Question_Options qb = Question_Options ex_question_b)"
    using ne unfolding d by auto
  from stored [of q] strings_Split_Join [of xs] oa ob ja jb stored_a d
    pushQuestion_created [of e e' d q] both
  show ?thesis
    by (simp only: simp_thms) blast
qed

theorem options_join_not_injective_witness:
  "\<not> exec_err ex_env \<and> \<not> query_err ex_env_split \<and> wf_questions ex_db \<and>
   questions ex_db = [] \<and> questions_auto_increment ex_db = 1 \<and>
   questions (snd (createQuestion ex_env (Inr ex_question_a) ex_db)) =
     [\<lparr>q_id = 1, q_course_id = 42, q_type = ''choice'', q_content = ''Which one?'',
       q_options = ''a,b'', q_answer = ''a''\<rparr>] \<and>
   [''a'', ''b''] \<noteq> [] \<and> list_all (\<lambda>x. CHR '','' \<notin> set x) [''a'', ''b''] \<and>
   strings_Split (strings_Join [''a'', ''b''] '','') CHR '','' = [''a'', ''b''] \<and>
   Question_CourseID ex_question_a = 42 \<and>
   scan_options ex_env_split (strings_Join (Question_Options ex_question_a) '','') =
     Some [''a'', ''b''] \<and>
   fst (pushQuestion ex_env_split 42 1 (snd (createQuestion ex_env (Inr ex_question_a) ex_db))) =
     JSON StatusOK
       (QuestionBody (ex_question_a\<lparr>Question_ID := 1, Question_Options := [''a'', ''b'']\<rparr>)) \<and>
   scan_options ex_env (strings_Join (Question_Options ex_question_a) '','') = None \<and>
   fst (pushQuestion ex_env 42 1 (snd (createQuestion ex_env (Inr ex_question_a) ex_db))) =
     JSON StatusInternalServerError (Error ''Failed to get question'')"
proof -
  have h: "\<not> exec_err ex_env" "\<not> query_err ex_env_split" "\<not> query_err ex_env"
    by (simp_all add: ex_env_sel ex_env_split_def)
  have wf: "wf_questions ex_db" and qs: "questions ex_db = []"
    and ai: "questions_auto_increment ex_db = 1"
    by (simp_all add: wf_questions_def ex_db_def)
  have l: "[''a'', ''b''] \<noteq> ([] :: string list)" "list_all (\<lambda>x. CHR '','' \<notin> set x) [''a'', ''b'']"
    by simp_all
  have c: "Question_CourseID ex_question_a = 42"
    by (simp add: ex_question_a_def)
  have sa: "scan_options ex_env_split (strings_Join (Question_Options ex_question_a) '','') =
      Some [''a'', ''b'']"
    by (simp add: ex_env_split_def ex_question_a_def)
  have sn: "scan_options ex_env (strings_Join (Question_Options ex_question_a) '','') = None"
    by (simp add: ex_env_sel)
  note t = options_join_not_injective [of ex_env ex_question_a ex_db "[''a'', ''b'']" ex_env_split
      42 1 ex_question_a ex_question_b]
    options_join_not_injective [of ex_env ex_question_a ex_db "[''a'', ''b'']" ex_env
      42 1 ex_question_a ex_question_b]
  note stored = t(1) [THEN conjunct2, THEN conjunct2, THEN conjunct2, THEN conjunct2,
      THEN conjunct2, THEN conjunct2, THEN conjunct1]
  note round_trip = t(1) [THEN conjunct2, THEN conjunct1]
  note fetch_split = t(1) [THEN conjunct2, THEN conjunct2, THEN conjunct2, THEN conjunct2,
      THEN conjunct2, THEN conjunct2, THEN conjunct2, THEN conjunct2, THEN conjunct1]
  note fetch_sql = t(2) [THEN conjunct2, THEN conjunct2, THEN conjunct2, THEN conjunct2,
      THEN conjunct2, THEN conjunct2, THEN conjunct2, THEN conjunct2, THEN conjunct1]
  from stored h(1) have st: "questions (snd (createQuestion ex_env (Inr ex_question_a) ex_db)) =
     [\<lparr>q_id = 1, q_course_id = 42, q_type = ''choice'', q_content = ''Which one?'',
       q_options = ''a,b'', q_answer = ''a''\<rparr>]"
    by (simp add: qs ai)
  from round_trip l have rt: "strings_Split (strings_Join [''a'', ''b''] '','') CHR '','' = [''a'', ''b'']"
    by blast
  from fetch_split h(1,2) wf have p1: "fst (pushQuestion ex_env_split 42 1
        (snd (createQuestion ex_env (Inr ex_question_a) ex_db))) =
     JSON StatusOK
       (QuestionBody (ex_question_a\<lparr>Question_ID := 1, Question_Options := [''a'', ''b'']\<rparr>))"
    by (simp add: c ai sa)
  from fetch_sql h(1,3) wf have p2: "fst (pushQuestion ex_env 42 1
        (snd (createQuestion ex_env (Inr ex_question_a) ex_db))) =
     JSON StatusInternalServerError (Error ''Failed to get question'')"
    by (simp add: c ai sn)
  from h(1,2) wf qs ai st l rt c sa p1 sn p2 show ?thesis
    by (intro conjI)
qed

end
